theory Spec2Isabelle
  imports Main
begin

section \<open>KaviosPix server: albums, images and access control\<close>

text \<open>
  A shallow embedding of the request handlers of the KaviosPix server
  (the album router \<^verbatim>\<open>routes/album.js\<close>, the image router and the
  application file with the credential middleware).

  Conventions of the model.
  \<^item> A JavaScript string is a \<^typ>\<open>string\<close>, read as a list of code units below 256.
  \<^item> A handler is a function from the database before the request to the response
    (status code and JSON body) and the database after it. The \<^verbatim>\<open>await\<close>ed store
    calls run one after the other, as in one request served alone, and the store
    answers each of them; it rejects a save only where the schema does (an empty
    required string, a second document with a unique id).
  \<^item> A collection is the list of its documents in insertion order.
    \<^verbatim>\<open>findOne\<close> returns the first match, \<^verbatim>\<open>deleteOne\<close> removes the first
    match, \<^verbatim>\<open>deleteMany\<close> removes every match.
  \<^item> What the environment decides (the generated uuid, the clock, the outcome of
    the media host, of \<^verbatim>\<open>jwt.verify\<close> and of \<^verbatim>\<open>JSON.parse\<close>, the schema's cast
    of a tag or flag value that is not of the path's type) is an argument.
  \<^item> A body field whose runtime type the handler itself inspects is a \<open>jsval\<close>;
    a field that is handed to a typed schema path as it is has the type the schema
    gives it, optional when the request may omit it.
\<close>

subsection \<open>JavaScript values and strings\<close>

text \<open>
  The JSON values a body field can hold. Arrays are arrays of strings, the only
  arrays the schema paths \<^verbatim>\<open>sharedWith\<close> and \<^verbatim>\<open>tags\<close> store unchanged;
  of a number only the truthiness is ever inspected.
\<close>

datatype jsval =
    JUndefined
  | JNull
  | JBool bool
  | JNum int
  | JStr string
  | JArr "string list"
  | JObj

fun truthy :: "jsval \<Rightarrow> bool" where
  "truthy JUndefined = False"
| "truthy JNull = False"
| "truthy (JBool b) = b"
| "truthy (JNum n) = (n \<noteq> 0)"
| "truthy (JStr s) = (s \<noteq> [])"
| "truthy (JArr xs) = True"
| "truthy JObj = True"

text \<open>Truthiness of an optional string: \<^verbatim>\<open>undefined\<close> and \<^verbatim>\<open>''\<close> are falsy.\<close>

fun truthyStr :: "string option \<Rightarrow> bool" where
  "truthyStr None = False"
| "truthyStr (Some s) = (s \<noteq> [])"

text \<open>The string of an optional string that is present.\<close>

fun strOf :: "string option \<Rightarrow> string" where
  "strOf None = []"
| "strOf (Some s) = s"

text \<open>\<^verbatim>\<open>x || d\<close> on an optional string.\<close>

fun orElse :: "string option \<Rightarrow> string \<Rightarrow> string" where
  "orElse None d = d"
| "orElse (Some s) d = (if s = [] then d else s)"

text \<open>
  White space as \<^verbatim>\<open>String.prototype.trim\<close> and the class \<^verbatim>\<open>\s\<close> see it,
  among the code units below 256: TAB, LF, VT, FF, CR, SPACE and NBSP.
\<close>

definition isSpace :: "char \<Rightarrow> bool" where
  "isSpace c = (of_char c \<in> {9, 10, 11, 12, 13, 32, 160 :: nat})"

definition trim :: "string \<Rightarrow> string" where
  "trim s = rev (dropWhile isSpace (rev (dropWhile isSpace s)))"

text \<open>\<^verbatim>\<open>s.split(c)\<close> for a one-character separator.\<close>

fun split_js :: "char \<Rightarrow> string \<Rightarrow> string list" where
  "split_js c [] = [[]]"
| "split_js c (x # xs) =
     (if x = c then [] # split_js c xs
      else (case split_js c xs of
              [] \<Rightarrow> [[x]]
            | y # ys \<Rightarrow> (x # y) # ys))"

text \<open>
  \<^verbatim>\<open>/^[^\s@]+@[^\s@]+\.[^\s@]+$/.test(s)\<close>: the string splits as
  \<open>a @ ''@'' @ b @ ''.'' @ c\<close> with \<open>a\<close>, \<open>b\<close>, \<open>c\<close> non-empty and free of
  white space and of \<^verbatim>\<open>@\<close>; \<open>i\<close> is the position of the \<^verbatim>\<open>@\<close>, \<open>j\<close>
  that of the dot.
\<close>

definition plainChar :: "char \<Rightarrow> bool" where
  "plainChar c = (\<not> isSpace c \<and> c \<noteq> CHR ''@'')"

definition emailRegex_test :: "string \<Rightarrow> bool" where
  "emailRegex_test s =
     list_ex (\<lambda>i. list_ex (\<lambda>j.
         0 < i \<and> i + 1 < j \<and> j + 1 < length s
       \<and> s ! i = CHR ''@'' \<and> s ! j = CHR ''.''
       \<and> list_all plainChar (take i s)
       \<and> list_all plainChar (take (j - (i + 1)) (drop (i + 1) s))
       \<and> list_all plainChar (drop (j + 1) s))
       [0 ..< length s]) [0 ..< length s]"

subsection \<open>Documents\<close>

text \<open>The claims of a verified credential (\<^verbatim>\<open>req.user\<close>).\<close>

record principal =
  userId :: string
  email :: string
  userName :: string
  picture :: string

text \<open>The album schema.\<close>

record album =
  albumId :: string
  name :: string
  description :: string
  ownerId :: string
  ownerEmail :: string
  sharedWith :: "string list"
  createdAt :: nat

record comment =
  cUserId :: string
  cUserEmail :: string
  cComment :: string
  cCreatedAt :: nat

text \<open>The image schema (\<open>imgAlbumId\<close>, \<open>imgName\<close>, \<open>sizeBytes\<close> are its
  \<^verbatim>\<open>albumId\<close>, \<^verbatim>\<open>name\<close>, \<^verbatim>\<open>size\<close>). The path \<^verbatim>\<open>isFavorite\<close> is a
  Boolean that is not required: it holds \<^verbatim>\<open>true\<close>, \<^verbatim>\<open>false\<close> or, as \<open>None\<close>,
  \<^verbatim>\<open>null\<close>.\<close>

record image =
  imageId :: string
  imgAlbumId :: string
  imgName :: string
  filename :: string
  cloudinaryUrl :: string
  cloudinaryPublicId :: string
  tags :: "string list"
  person :: string
  isFavorite :: "bool option"
  comments :: "comment list"
  sizeBytes :: nat
  uploadedAt :: nat
  uploadedBy :: string

record db =
  albums :: "album list"
  images :: "image list"

definition emptyDb :: db where
  "emptyDb = \<lparr>albums = [], images = []\<rparr>"

subsection \<open>The store\<close>

text \<open>\<^verbatim>\<open>Model.findOne(q)\<close>: the first document that matches.\<close>

definition findOne :: "('a \<Rightarrow> bool) \<Rightarrow> 'a list \<Rightarrow> 'a option" where
  "findOne q docs = find q docs"

text \<open>\<^verbatim>\<open>Model.deleteOne(q)\<close>: the first match is removed, if there is one.\<close>

fun deleteOne :: "('a \<Rightarrow> bool) \<Rightarrow> 'a list \<Rightarrow> 'a list" where
  "deleteOne q [] = []"
| "deleteOne q (d # docs) = (if q d then docs else d # deleteOne q docs)"

text \<open>\<^verbatim>\<open>Model.deleteMany(q)\<close>.\<close>

definition deleteMany :: "('a \<Rightarrow> bool) \<Rightarrow> 'a list \<Rightarrow> 'a list" where
  "deleteMany q docs = filter (\<lambda>d. \<not> q d) docs"

text \<open>
  \<^verbatim>\<open>doc.save()\<close> of a document that \<^verbatim>\<open>findOne(q)\<close> loaded: the stored
  document it was loaded from, the first match of \<open>q\<close>, is replaced. No handler
  changes a field that \<open>q\<close> reads before saving.
\<close>

fun saveLoaded :: "('a \<Rightarrow> bool) \<Rightarrow> 'a \<Rightarrow> 'a list \<Rightarrow> 'a list" where
  "saveLoaded q doc [] = []"
| "saveLoaded q doc (d # docs) = (if q d then doc # docs else d # saveLoaded q doc docs)"

text \<open>
  \<^verbatim>\<open>doc.save()\<close> of a new album. The schema rejects an empty required string
  (\<^verbatim>\<open>albumId\<close>, \<^verbatim>\<open>name\<close>, \<^verbatim>\<open>ownerId\<close>, \<^verbatim>\<open>ownerEmail\<close>) and its unique
  index rejects an \<^verbatim>\<open>albumId\<close> already stored; \<open>None\<close> is the rejected save.
\<close>

definition Album_saveNew :: "db \<Rightarrow> album \<Rightarrow> db option" where
  "Album_saveNew st a =
     (if albumId a = [] \<or> name a = [] \<or> ownerId a = [] \<or> ownerEmail a = [] then None
      else if list_ex (\<lambda>b. albumId b = albumId a) (albums st) then None
      else Some (st\<lparr>albums := albums st @ [a]\<rparr>))"

text \<open>The same for a new image (\<^verbatim>\<open>imageId\<close> is the unique path).\<close>

definition Image_saveNew :: "db \<Rightarrow> image \<Rightarrow> db option" where
  "Image_saveNew st i =
     (if imageId i = [] \<or> imgAlbumId i = [] \<or> imgName i = [] \<or> filename i = []
         \<or> cloudinaryUrl i = [] \<or> cloudinaryPublicId i = [] \<or> uploadedBy i = [] then None
      else if list_ex (\<lambda>j. imageId j = imageId i) (images st) then None
      else Some (st\<lparr>images := images st @ [i]\<rparr>))"

subsection \<open>Responses\<close>

text \<open>The JSON bodies of the responses, one constructor per shape. \<open>StoreError\<close>
  is \<^verbatim>\<open>{error: error.message}\<close> for an error thrown by a rejected save, whose
  message is the store's.\<close>

datatype body =
    Error string
  | Message string
  | AlbumCreated string string string string string "string list"
  | AlbumDoc album
  | AlbumUpdated string string string string
  | Shared string "string list"
  | ImageUploaded string string string string "string list" string "bool option" nat nat
  | Images "(string \<times> string \<times> string \<times> string list \<times> string \<times> bool option \<times> comment list \<times> nat \<times> nat) list"
  | FavoriteSet string "bool option"
  | CommentAdded string "comment list"
  | ImageUrl string string string
  | StoreError
  | Profile string string string string
  | TokenValid principal

type_synonym response = "nat \<times> body"

subsection \<open>Access control\<close>

text \<open>
  The test every reading handler makes,
  \<^verbatim>\<open>album.ownerId === req.user.userId || album.sharedWith.includes(req.user.email)\<close>.
\<close>

definition hasAccess :: "album \<Rightarrow> principal \<Rightarrow> bool" where
  "hasAccess album user =
     (ownerId album = userId user \<or> email user \<in> set (sharedWith album))"

subsection \<open>The album router\<close>

text \<open>\<^verbatim>\<open>POST /albums\<close>. \<open>uuid\<close> is what \<^verbatim>\<open>uuidv4()\<close> returns and \<open>now\<close> the
  clock read by the schema default of \<^verbatim>\<open>createdAt\<close>.\<close>

definition createAlbum ::
  "db \<Rightarrow> principal \<Rightarrow> string \<Rightarrow> nat \<Rightarrow> string option \<Rightarrow> string option \<Rightarrow> response \<times> db" where
  "createAlbum st user uuid now nm descr =
     (if \<not> truthyStr nm then ((400, Error ''Album name is required''), st)
      else
        let album = \<lparr>albumId = uuid, name = strOf nm, description = orElse descr [],
                     ownerId = userId user, ownerEmail = email user,
                     sharedWith = [], createdAt = now\<rparr>
        in (case Album_saveNew st album of
              None \<Rightarrow> ((500, Error ''Failed to create album''), st)
            | Some st' \<Rightarrow>
                ((201, AlbumCreated ''Album created successfully'' (albumId album) (name album)
                         (description album) (ownerId album) (sharedWith album)), st')))"

text \<open>\<^verbatim>\<open>GET /albums/:albumId\<close>.\<close>

definition getAlbum :: "db \<Rightarrow> principal \<Rightarrow> string \<Rightarrow> response" where
  "getAlbum st user aid =
     (case findOne (\<lambda>a. albumId a = aid) (albums st) of
        None \<Rightarrow> (404, Error ''Album not found'')
      | Some album \<Rightarrow>
          if \<not> hasAccess album user
          then (403, Error ''You do not have access to this album'')
          else (200, AlbumDoc album))"

text \<open>\<^verbatim>\<open>POST /albums/:albumId\<close>: the owner updates the description.\<close>

definition updateDescription ::
  "db \<Rightarrow> principal \<Rightarrow> string \<Rightarrow> string option \<Rightarrow> response \<times> db" where
  "updateDescription st user aid descr =
     (case findOne (\<lambda>a. albumId a = aid) (albums st) of
        None \<Rightarrow> ((404, Error ''Album not found''), st)
      | Some album \<Rightarrow>
          if ownerId album \<noteq> userId user
          then ((403, Error ''Only the album owner can update it''), st)
          else
            let album' = album\<lparr>description := orElse descr (description album)\<rparr>;
                st' = st\<lparr>albums := saveLoaded (\<lambda>a. albumId a = aid) album' (albums st)\<rparr>
            in ((200, AlbumUpdated ''Album updated successfully'' (albumId album')
                        (name album') (description album')), st'))"

text \<open>\<^verbatim>\<open>Array.isArray\<close> and the elements of an array.\<close>

fun isArray :: "jsval \<Rightarrow> bool" where
  "isArray (JArr xs) = True"
| "isArray v = False"

fun elems :: "jsval \<Rightarrow> string list" where
  "elems (JArr xs) = xs"
| "elems v = []"

text \<open>
  The \<^verbatim>\<open>forEach\<close> of the share handler: each valid email is pushed unless the
  list, as the earlier pushes left it, includes it or it is the owner's email.
\<close>

fun pushEach :: "string \<Rightarrow> string list \<Rightarrow> string list \<Rightarrow> string list" where
  "pushEach owner [] shared = shared"
| "pushEach owner (e # es) shared =
     pushEach owner es (if e \<notin> set shared \<and> e \<noteq> owner then shared @ [e] else shared)"

text \<open>\<^verbatim>\<open>POST /albums/:albumId/share\<close>.\<close>

definition shareAlbum :: "db \<Rightarrow> principal \<Rightarrow> string \<Rightarrow> jsval \<Rightarrow> response \<times> db" where
  "shareAlbum st user aid emails =
     (if \<not> truthy emails \<or> \<not> isArray emails \<or> length (elems emails) = 0
      then ((400, Error ''Valid email array is required''), st)
      else
        (case findOne (\<lambda>a. albumId a = aid) (albums st) of
           None \<Rightarrow> ((404, Error ''Album not found''), st)
         | Some album \<Rightarrow>
             if ownerId album \<noteq> userId user
             then ((403, Error ''Only the album owner can share it''), st)
             else
               let validEmails = filter emailRegex_test (elems emails)
               in if length validEmails = 0
                  then ((400, Error ''No valid emails provided''), st)
                  else
                    let album' = album\<lparr>sharedWith :=
                                   pushEach (ownerEmail album) validEmails (sharedWith album)\<rparr>;
                        st' = st\<lparr>albums := saveLoaded (\<lambda>a. albumId a = aid) album' (albums st)\<rparr>
                    in ((200, Shared ''Album shared successfully'' (sharedWith album')), st')))"

text \<open>\<^verbatim>\<open>DELETE /albums/:albumId\<close>: the images of the album, then the album.\<close>

definition deleteAlbum :: "db \<Rightarrow> principal \<Rightarrow> string \<Rightarrow> response \<times> db" where
  "deleteAlbum st user aid =
     (case findOne (\<lambda>a. albumId a = aid) (albums st) of
        None \<Rightarrow> ((404, Error ''Album not found''), st)
      | Some album \<Rightarrow>
          if ownerId album \<noteq> userId user
          then ((403, Error ''Only the album owner can delete it''), st)
          else
            let st1 = st\<lparr>images := deleteMany (\<lambda>i. imgAlbumId i = aid) (images st)\<rparr>;
                st2 = st1\<lparr>albums := deleteOne (\<lambda>a. albumId a = aid) (albums st1)\<rparr>
            in ((200, Message ''Album and all associated images deleted successfully''), st2))"

subsection \<open>The image router\<close>

text \<open>What multer leaves in \<^verbatim>\<open>req.file\<close>, as far as the handler reads it.\<close>

record upfile =
  originalname :: string

text \<open>What the media host answers to an upload.\<close>

record cloud_result =
  secure_url :: string
  public_id :: string
  bytes :: nat

text \<open>
  The tag list a new image stores for \<open>parsedTags\<close>. An array of strings is stored
  as it is; what the schema's cast makes of any other value is the argument
  \<open>castTags\<close> (\<open>None\<close>: the cast fails and the save is rejected).
\<close>

fun storedTags :: "(jsval \<Rightarrow> string list option) \<Rightarrow> jsval \<Rightarrow> string list option" where
  "storedTags castTags (JArr xs) = Some xs"
| "storedTags castTags v = castTags v"

text \<open>
  The tag parsing of the upload handler. \<open>JSON_parse\<close> is \<^verbatim>\<open>JSON.parse\<close>, \<open>None\<close>
  when it throws.
\<close>

definition parseTags :: "(string \<Rightarrow> jsval option) \<Rightarrow> jsval \<Rightarrow> jsval" where
  "parseTags JSON_parse tgs =
     (if truthy tgs then
        (case tgs of
           JStr s \<Rightarrow> (case JSON_parse s of None \<Rightarrow> JArr [] | Some v \<Rightarrow> v)
         | _ \<Rightarrow> tgs)
      else JArr [])"

text \<open>
  \<^verbatim>\<open>POST /albums/:albumId/images\<close>, after multer has accepted the request.
  \<open>uploadResult\<close> is the outcome of the media host, \<open>Inl msg\<close> when it rejects
  with the message \<open>msg\<close>. The schema's cast of the tags fails, if it does,
  when the new document is saved.
\<close>

definition uploadImage ::
  "(string \<Rightarrow> jsval option) \<Rightarrow> (jsval \<Rightarrow> string list option) \<Rightarrow> db \<Rightarrow> principal \<Rightarrow> string
     \<Rightarrow> upfile option \<Rightarrow> jsval \<Rightarrow> string option \<Rightarrow> jsval
     \<Rightarrow> string + cloud_result \<Rightarrow> string \<Rightarrow> nat \<Rightarrow> response \<times> db" where
  "uploadImage JSON_parse castTags st user aid file tgs pers fav uploadResult uuid now =
     (case file of
        None \<Rightarrow> ((400, Error ''No file uploaded''), st)
      | Some f \<Rightarrow>
        (case findOne (\<lambda>a. albumId a = aid) (albums st) of
           None \<Rightarrow> ((404, Error ''Album not found''), st)
         | Some album \<Rightarrow>
             if \<not> hasAccess album user
             then ((403, Error ''You do not have access to this album''), st)
             else
               let parsedTags = parseTags JSON_parse tgs
               in (case uploadResult of
                     Inl msg \<Rightarrow> ((500, Error (orElse (Some msg) ''Failed to upload image'')), st)
                   | Inr r \<Rightarrow>
                       (case storedTags castTags parsedTags of
                          None \<Rightarrow> ((500, StoreError), st)
                        | Some ts \<Rightarrow>
                            let img = \<lparr>imageId = uuid, imgAlbumId = aid,
                                       imgName = originalname f, filename = originalname f,
                                       cloudinaryUrl = secure_url r,
                                       cloudinaryPublicId = public_id r,
                                       tags = ts, person = orElse pers [],
                                       isFavorite = (Some (fav = JStr ''true'' \<or> fav = JBool True)),
                                       comments = [], sizeBytes = bytes r,
                                       uploadedAt = now, uploadedBy = userId user\<rparr>
                            in (case Image_saveNew st img of
                                  None \<Rightarrow> ((500, StoreError), st)
                                | Some st' \<Rightarrow>
                                    ((201, ImageUploaded ''Image uploaded successfully''
                                             (imageId img) (imgName img) (cloudinaryUrl img)
                                             (tags img) (person img) (isFavorite img)
                                             (sizeBytes img) (uploadedAt img)), st'))))))"

text \<open>The projection of an image in the two list responses.\<close>

definition imageView ::
  "image \<Rightarrow> string \<times> string \<times> string \<times> string list \<times> string \<times> bool option \<times> comment list \<times> nat \<times> nat" where
  "imageView img = (imageId img, imgName img, cloudinaryUrl img, tags img, person img,
                    isFavorite img, comments img, sizeBytes img, uploadedAt img)"

text \<open>\<^verbatim>\<open>.sort({uploadedAt: -1})\<close>: newest first; the model keeps documents of the
  same instant in insertion order.\<close>

definition sortNewestFirst :: "image list \<Rightarrow> image list" where
  "sortNewestFirst imgs = sort_key (\<lambda>i. - int (uploadedAt i)) imgs"

text \<open>\<^verbatim>\<open>GET /albums/:albumId/images?tags=a,b\<close>.\<close>

definition listImages :: "db \<Rightarrow> principal \<Rightarrow> string \<Rightarrow> string option \<Rightarrow> response" where
  "listImages st user aid tagsQuery =
     (case findOne (\<lambda>a. albumId a = aid) (albums st) of
        None \<Rightarrow> (404, Error ''Album not found'')
      | Some album \<Rightarrow>
          if \<not> hasAccess album user
          then (403, Error ''You do not have access to this album'')
          else
            let query =
                  (if truthyStr tagsQuery
                   then (let tagArray = map trim (split_js CHR '','' (strOf tagsQuery))
                         in (\<lambda>i. imgAlbumId i = aid \<and> list_ex (\<lambda>t. t \<in> set tagArray) (tags i)))
                   else (\<lambda>i. imgAlbumId i = aid))
            in (200, Images (map imageView (sortNewestFirst (filter query (images st))))))"

text \<open>\<^verbatim>\<open>GET /albums/:albumId/images/favorites\<close>.\<close>

definition listFavorites :: "db \<Rightarrow> principal \<Rightarrow> string \<Rightarrow> response" where
  "listFavorites st user aid =
     (case findOne (\<lambda>a. albumId a = aid) (albums st) of
        None \<Rightarrow> (404, Error ''Album not found'')
      | Some album \<Rightarrow>
          if \<not> hasAccess album user
          then (403, Error ''You do not have access to this album'')
          else (200, Images (map imageView (sortNewestFirst
                  (filter (\<lambda>i. imgAlbumId i = aid \<and> isFavorite i = Some True) (images st))))))"

text \<open>Truthiness of a stored flag: \<^verbatim>\<open>null\<close> and \<^verbatim>\<open>false\<close> are falsy.\<close>

fun truthyFlag :: "bool option \<Rightarrow> bool" where
  "truthyFlag None = False"
| "truthyFlag (Some b) = b"

text \<open>
  What the Boolean path \<^verbatim>\<open>isFavorite\<close> holds after a value is assigned to it. A
  Boolean is held as it is and so is \<^verbatim>\<open>null\<close>, the path not being required; what
  the schema's cast makes of any other value is the argument \<open>castFlag\<close>
  (\<open>None\<close>: the cast fails and the save is rejected).
\<close>

fun storedFlag :: "(jsval \<Rightarrow> bool option option) \<Rightarrow> jsval \<Rightarrow> bool option option" where
  "storedFlag castFlag (JBool b) = Some (Some b)"
| "storedFlag castFlag JNull = Some None"
| "storedFlag castFlag v = castFlag v"

text \<open>
  \<^verbatim>\<open>PUT /albums/:albumId/images/:imageId/favorite\<close>. The handler asks only
  whether the body's \<^verbatim>\<open>isFavorite\<close> is \<^verbatim>\<open>undefined\<close>: every other value is
  assigned to the document. A rejected save is caught and answered 500.
\<close>

definition setFavorite ::
  "(jsval \<Rightarrow> bool option option) \<Rightarrow> db \<Rightarrow> principal \<Rightarrow> string \<Rightarrow> string \<Rightarrow> jsval
     \<Rightarrow> response \<times> db" where
  "setFavorite castFlag st user aid iid fav =
     (case findOne (\<lambda>a. albumId a = aid) (albums st) of
        None \<Rightarrow> ((404, Error ''Album not found''), st)
      | Some album \<Rightarrow>
          if \<not> hasAccess album user
          then ((403, Error ''You do not have access to this album''), st)
          else
            (case findOne (\<lambda>i. imageId i = iid \<and> imgAlbumId i = aid) (images st) of
               None \<Rightarrow> ((404, Error ''Image not found''), st)
             | Some img \<Rightarrow>
                 (case (if fav \<noteq> JUndefined then storedFlag castFlag fav
                        else Some (Some (\<not> truthyFlag (isFavorite img)))) of
                    None \<Rightarrow> ((500, Error ''Failed to update favorite status''), st)
                  | Some v \<Rightarrow>
                      let img' = img\<lparr>isFavorite := v\<rparr>;
                          st' = st\<lparr>images :=
                                   saveLoaded (\<lambda>i. imageId i = iid \<and> imgAlbumId i = aid)
                                     img' (images st)\<rparr>
                      in ((200, FavoriteSet ''Image favorite status updated'' (isFavorite img')),
                          st'))))"

text \<open>
  \<^verbatim>\<open>POST /albums/:albumId/images/:imageId/comments\<close>. A truthy \<^verbatim>\<open>comment\<close>
  that is not a string has no \<^verbatim>\<open>trim\<close> method: the call throws and the
  \<^verbatim>\<open>catch\<close> answers 500.
\<close>

definition addComment ::
  "db \<Rightarrow> principal \<Rightarrow> string \<Rightarrow> string \<Rightarrow> jsval \<Rightarrow> nat \<Rightarrow> response \<times> db" where
  "addComment st user aid iid cmt now =
     (if \<not> truthy cmt then ((400, Error ''Comment cannot be empty''), st)
      else
        (case cmt of
           JStr text \<Rightarrow>
             if trim text = [] then ((400, Error ''Comment cannot be empty''), st)
             else
               (case findOne (\<lambda>a. albumId a = aid) (albums st) of
                  None \<Rightarrow> ((404, Error ''Album not found''), st)
                | Some album \<Rightarrow>
                    if \<not> hasAccess album user
                    then ((403, Error ''You do not have access to this album''), st)
                    else
                      (case findOne (\<lambda>i. imageId i = iid \<and> imgAlbumId i = aid) (images st) of
                         None \<Rightarrow> ((404, Error ''Image not found''), st)
                       | Some img \<Rightarrow>
                           let img' = img\<lparr>comments := comments img @
                                        [\<lparr>cUserId = userId user, cUserEmail = email user,
                                          cComment = trim text, cCreatedAt = now\<rparr>]\<rparr>;
                               st' = st\<lparr>images :=
                                        saveLoaded (\<lambda>i. imageId i = iid \<and> imgAlbumId i = aid)
                                          img' (images st)\<rparr>
                           in ((200, CommentAdded ''Comment added successfully'' (comments img')),
                               st')))
         | _ \<Rightarrow> ((500, Error ''Failed to add comment''), st)))"

text \<open>
  \<^verbatim>\<open>DELETE /albums/:albumId/images/:imageId\<close>. \<open>destroyed\<close> tells whether the
  media host's \<^verbatim>\<open>destroy\<close> resolved; its failure is logged and the handler goes on.
\<close>

definition deleteImage ::
  "db \<Rightarrow> principal \<Rightarrow> string \<Rightarrow> string \<Rightarrow> bool \<Rightarrow> response \<times> db" where
  "deleteImage st user aid iid destroyed =
     (case findOne (\<lambda>a. albumId a = aid) (albums st) of
        None \<Rightarrow> ((404, Error ''Album not found''), st)
      | Some album \<Rightarrow>
          (case findOne (\<lambda>i. imageId i = iid \<and> imgAlbumId i = aid) (images st) of
             None \<Rightarrow> ((404, Error ''Image not found''), st)
           | Some img \<Rightarrow>
               let canDelete = (ownerId album = userId user \<or> uploadedBy img = userId user)
               in if \<not> canDelete
                  then ((403, Error ''You do not have permission to delete this image''), st)
                  else
                    let st1 = (if destroyed then st else st);
                        st2 = st1\<lparr>images := deleteOne (\<lambda>i. imageId i = iid) (images st1)\<rparr>
                    in ((200, Message ''Image deleted successfully''), st2)))"

text \<open>\<^verbatim>\<open>GET /albums/:albumId/images/:imageId/url\<close>.\<close>

definition getImageUrl :: "db \<Rightarrow> principal \<Rightarrow> string \<Rightarrow> string \<Rightarrow> response" where
  "getImageUrl st user aid iid =
     (case findOne (\<lambda>a. albumId a = aid) (albums st) of
        None \<Rightarrow> (404, Error ''Album not found'')
      | Some album \<Rightarrow>
          if \<not> hasAccess album user
          then (403, Error ''You do not have access to this album'')
          else
            (case findOne (\<lambda>i. imageId i = iid \<and> imgAlbumId i = aid) (images st) of
               None \<Rightarrow> (404, Error ''Image not found'')
             | Some img \<Rightarrow> (200, ImageUrl (cloudinaryUrl img) (imageId img) (imgName img))))"

subsection \<open>The credential middleware\<close>

text \<open>Where a request can carry the credential.\<close>

record credentials =
  cookie_jwt_token :: "string option"
  authorization :: "string option"

text \<open>Why \<^verbatim>\<open>jwt.verify\<close> throws.\<close>

datatype jwt_error = JsonWebTokenError | TokenExpiredError | NotBeforeError

text \<open>\<^verbatim>\<open>req.cookies.jwt_token || req.headers.authorization?.split(' ')[1]\<close>.\<close>

definition requestToken :: "credentials \<Rightarrow> string option" where
  "requestToken req =
     (if truthyStr (cookie_jwt_token req) then cookie_jwt_token req
      else (case authorization req of
              None \<Rightarrow> None
            | Some h \<Rightarrow>
                (let parts = split_js CHR '' '' h
                 in if 1 < length parts then Some (parts ! 1) else None)))"

text \<open>
  \<^verbatim>\<open>verifyJWT\<close> of the application: \<open>Inl\<close> is the response it sends itself,
  \<open>Inr\<close> the \<^verbatim>\<open>req.user\<close> it hands to \<^verbatim>\<open>next()\<close>. \<open>jwt_verify\<close> is
  \<^verbatim>\<open>jwt.verify\<close> under the server's secret.
\<close>

definition verifyJWT ::
  "(string \<Rightarrow> jwt_error + principal) \<Rightarrow> credentials \<Rightarrow> response + principal" where
  "verifyJWT jwt_verify req =
     (let token = requestToken req
      in if \<not> truthyStr token then Inl (401, Error ''No token provided'')
         else (case jwt_verify (strOf token) of
                 Inl e \<Rightarrow> Inl (401, Error ''Invalid or expired token'')
               | Inr decoded \<Rightarrow> Inr decoded))"

text \<open>\<^verbatim>\<open>verifyJWT\<close> of the two routers: it only asks for \<^verbatim>\<open>req.user\<close>.\<close>

definition routerVerifyJWT :: "principal option \<Rightarrow> response + principal" where
  "routerVerifyJWT user =
     (case user of
        None \<Rightarrow> Inl (401, Error ''Unauthorized'')
      | Some u \<Rightarrow> Inr u)"

text \<open>
  A route under \<^verbatim>\<open>/albums\<close>: the application's middleware, the router's, then
  the handler.
\<close>

definition albumsRoute ::
  "(string \<Rightarrow> jwt_error + principal) \<Rightarrow> credentials \<Rightarrow> (principal \<Rightarrow> response) \<Rightarrow> response" where
  "albumsRoute jwt_verify req handler =
     (case verifyJWT jwt_verify req of
        Inl r \<Rightarrow> r
      | Inr user \<Rightarrow>
          (case routerVerifyJWT (Some user) of
             Inl r \<Rightarrow> r
           | Inr u \<Rightarrow> handler u))"

text \<open>\<^verbatim>\<open>GET /user/profile\<close> and \<^verbatim>\<open>GET /auth/verify\<close>.\<close>

definition userProfile ::
  "(string \<Rightarrow> jwt_error + principal) \<Rightarrow> credentials \<Rightarrow> response" where
  "userProfile jwt_verify req =
     (case verifyJWT jwt_verify req of
        Inl r \<Rightarrow> r
      | Inr user \<Rightarrow> (200, Profile (email user) (userId user) (userName user) (picture user)))"

definition authVerify ::
  "(string \<Rightarrow> jwt_error + principal) \<Rightarrow> credentials \<Rightarrow> response" where
  "authVerify jwt_verify req =
     (case verifyJWT jwt_verify req of
        Inl r \<Rightarrow> r
      | Inr user \<Rightarrow> (200, TokenValid user))"

subsection \<open>The server as a state machine\<close>

text \<open>The requests that can change the database, each with what the environment
  decides while it is served.\<close>

datatype request =
    CreateAlbum principal string nat "string option" "string option"
  | UpdateDescription principal string "string option"
  | ShareAlbum principal string jsval
  | DeleteAlbum principal string
  | UploadImage principal string "upfile option" jsval "string option" jsval
      "string + cloud_result" string nat
  | SetFavorite principal string string jsval
  | AddComment principal string string jsval nat
  | DeleteImage principal string string bool

fun step ::
  "(string \<Rightarrow> jsval option) \<Rightarrow> (jsval \<Rightarrow> string list option)
     \<Rightarrow> (jsval \<Rightarrow> bool option option) \<Rightarrow> db \<Rightarrow> request \<Rightarrow> db" where
  "step P C B st (CreateAlbum u uuid now nm descr) = snd (createAlbum st u uuid now nm descr)"
| "step P C B st (UpdateDescription u aid descr) = snd (updateDescription st u aid descr)"
| "step P C B st (ShareAlbum u aid emails) = snd (shareAlbum st u aid emails)"
| "step P C B st (DeleteAlbum u aid) = snd (deleteAlbum st u aid)"
| "step P C B st (UploadImage u aid file tgs pers fav res uuid now) =
     snd (uploadImage P C st u aid file tgs pers fav res uuid now)"
| "step P C B st (SetFavorite u aid iid fav) = snd (setFavorite B st u aid iid fav)"
| "step P C B st (AddComment u aid iid cmt now) = snd (addComment st u aid iid cmt now)"
| "step P C B st (DeleteImage u aid iid destroyed) = snd (deleteImage st u aid iid destroyed)"

text \<open>The database after a sequence of requests, served one by one.\<close>

definition run ::
  "(string \<Rightarrow> jsval option) \<Rightarrow> (jsval \<Rightarrow> string list option)
     \<Rightarrow> (jsval \<Rightarrow> bool option option) \<Rightarrow> db \<Rightarrow> request list \<Rightarrow> db" where
  "run P C B st reqs = foldl (step P C B) st reqs"

text \<open>The unique indexes of the two schemas, as a property of a database.\<close>

definition uniqueIds :: "db \<Rightarrow> bool" where
  "uniqueIds st = (distinct (map albumId (albums st)) \<and> distinct (map imageId (images st)))"

text \<open>What the share handler keeps true of an album.\<close>

definition sharedOk :: "album \<Rightarrow> bool" where
  "sharedOk a = (ownerEmail a \<notin> set (sharedWith a) \<and> distinct (sharedWith a))"

subsection \<open>Example data\<close>

definition ann :: principal where
  "ann = \<lparr>userId = ''u1'', email = ''ann@x.io'', userName = ''Ann'', picture = []\<rparr>"

definition bob :: principal where
  "bob = \<lparr>userId = ''u2'', email = ''bob@x.io'', userName = ''Bob'', picture = []\<rparr>"

definition cy :: principal where
  "cy = \<lparr>userId = ''u3'', email = ''cy@x.io'', userName = ''Cy'', picture = []\<rparr>"

definition trip :: album where
  "trip = \<lparr>albumId = ''a1'', name = ''Trip'', description = ''sea'', ownerId = ''u1'',
           ownerEmail = ''ann@x.io'', sharedWith = [''bob@x.io''], createdAt = 1\<rparr>"

definition pic :: image where
  "pic = \<lparr>imageId = ''i1'', imgAlbumId = ''a1'', imgName = ''p.png'', filename = ''p.png'',
          cloudinaryUrl = ''https://h/p'', cloudinaryPublicId = ''k/p'', tags = [''sun''],
          person = [], isFavorite = Some False, comments = [], sizeBytes = 10,
          uploadedAt = 2, uploadedBy = ''u2''\<rparr>"

definition db1 :: db where
  "db1 = \<lparr>albums = [trip], images = [pic]\<rparr>"

text \<open>A \<^verbatim>\<open>jwt.verify\<close> that accepts no token, a \<^verbatim>\<open>JSON.parse\<close> that knows one
  text (\<open>sunJson\<close> is \<^verbatim>\<open>["sun"]\<close>), and a cast that refuses what is not a list.\<close>

definition rejectAll :: "string \<Rightarrow> jwt_error + principal" where
  "rejectAll t = (if t = ''old'' then Inl TokenExpiredError else Inl JsonWebTokenError)"

definition sunJson :: string where
  "sunJson = ''['' @ [CHR 0x22] @ ''sun'' @ [CHR 0x22] @ '']''"

definition parse1 :: "string \<Rightarrow> jsval option" where
  "parse1 s = (if s = sunJson then Some (JArr [''sun'']) else None)"

definition noCast :: "jsval \<Rightarrow> string list option" where
  "noCast v = None"

text \<open>A Boolean cast that refuses what is neither a Boolean nor \<^verbatim>\<open>null\<close>.\<close>

definition noFlag :: "jsval \<Rightarrow> bool option option" where
  "noFlag v = None"

definition hut :: album where
  "hut = \<lparr>albumId = ''a2'', name = ''Hut'', description = [], ownerId = ''u2'',
          ownerEmail = ''bob@x.io'', sharedWith = [], createdAt = 3\<rparr>"

definition pic2 :: image where
  "pic2 = \<lparr>imageId = ''i2'', imgAlbumId = ''a2'', imgName = ''h.png'', filename = ''h.png'',
           cloudinaryUrl = ''https://h/h'', cloudinaryPublicId = ''k/h'', tags = [],
           person = [], isFavorite = Some True, comments = [], sizeBytes = 20,
           uploadedAt = 4, uploadedBy = ''u2''\<rparr>"

definition db2 :: db where
  "db2 = \<lparr>albums = [trip, hut], images = [pic, pic2]\<rparr>"

text \<open>\<open>db2\<close> after \<^verbatim>\<open>null\<close> was assigned to the flag of its first image.\<close>

definition db3 :: db where
  "db3 = \<lparr>albums = [trip, hut], images = [pic\<lparr>isFavorite := None\<rparr>, pic2]\<rparr>"

section \<open>Properties\<close>

subsection \<open>The store\<close>

lemma findOne_SomeD: "findOne q docs = Some d \<Longrightarrow> d \<in> set docs \<and> q d"
  unfolding findOne_def by (induction docs) (auto split: if_splits)

lemma findOne_None_iff: "findOne q docs = None \<longleftrightarrow> (\<forall>d \<in> set docs. \<not> q d)"
  unfolding findOne_def by (induction docs) auto

lemma saveLoaded_same: "findOne q docs = Some d \<Longrightarrow> saveLoaded q d docs = docs"
  unfolding findOne_def by (induction docs) (auto split: if_splits)

lemma set_saveLoaded: "set (saveLoaded q d docs) \<subseteq> insert d (set docs)"
  by (induction docs) auto

lemma map_saveLoaded:
  "findOne q docs = Some d \<Longrightarrow> f d' = f d \<Longrightarrow> map f (saveLoaded q d' docs) = map f docs"
  unfolding findOne_def by (induction docs) (auto split: if_splits)

lemma saveLoaded_update:
  "findOne q docs = Some d \<Longrightarrow>
     \<exists>k < length docs. docs ! k = d \<and> saveLoaded q d' docs = docs[k := d']"
proof (induction docs)
  case Nil
  then show ?case by (simp add: findOne_def)
next
  case (Cons x xs)
  show ?case
  proof (cases "q x")
    case True
    with Cons.prems have "x = d" by (simp add: findOne_def)
    with True have "(x # xs) ! 0 = d \<and> saveLoaded q d' (x # xs) = (x # xs)[0 := d']"
      by simp
    then show ?thesis by blast
  next
    case False
    with Cons.prems have "findOne q xs = Some d" by (simp add: findOne_def)
    from Cons.IH [OF this] obtain k where
      k: "k < length xs" "xs ! k = d" "saveLoaded q d' xs = xs[k := d']" by blast
    with False have "Suc k < length (x # xs) \<and> (x # xs) ! Suc k = d
        \<and> saveLoaded q d' (x # xs) = (x # xs)[Suc k := d']"
      by simp
    then show ?thesis by blast
  qed
qed

lemma findOne_saveLoaded:
  "findOne q docs = Some d \<Longrightarrow> q d' \<Longrightarrow> findOne q (saveLoaded q d' docs) = Some d'"
  unfolding findOne_def by (induction docs) (auto split: if_splits)

lemma set_deleteOne: "set (deleteOne q docs) \<subseteq> set docs"
  by (induction docs) auto

lemma distinct_deleteOne: "distinct (map f docs) \<Longrightarrow> distinct (map f (deleteOne q docs))"
proof (induction docs)
  case Nil
  then show ?case by simp
next
  case (Cons x xs)
  have "f ` set (deleteOne q xs) \<subseteq> f ` set xs"
    using set_deleteOne [of q xs] by blast
  with Cons show ?case by auto
qed

lemma deleteOne_key_gone:
  "distinct (map f docs) \<Longrightarrow> d \<in> set (deleteOne (\<lambda>x. f x = k) docs) \<Longrightarrow> f d \<noteq> k"
proof (induction docs)
  case Nil
  then show ?case by simp
next
  case (Cons x xs)
  show ?case
  proof (cases "f x = k")
    case True
    with Cons.prems have "d \<in> set xs" "f x \<notin> f ` set xs" by simp_all
    with True show ?thesis by blast
  next
    case False
    with Cons show ?thesis by auto
  qed
qed

lemma deleteOne_others:
  "d \<in> set docs \<Longrightarrow> \<not> q d \<Longrightarrow> d \<in> set (deleteOne q docs)"
  by (induction docs) auto

subsection \<open>Sharing keeps the list free of the owner and of duplicates\<close>

lemma pushEach_ok:
  "owner \<notin> set shared \<Longrightarrow> distinct shared \<Longrightarrow>
     owner \<notin> set (pushEach owner es shared) \<and> distinct (pushEach owner es shared)"
proof (induction es arbitrary: shared)
  case Nil
  then show ?case by simp
next
  case (Cons e es)
  show ?case
  proof (cases "e \<notin> set shared \<and> e \<noteq> owner")
    case True
    with Cons.prems have "owner \<notin> set (shared @ [e])" and "distinct (shared @ [e])"
      by auto
    from Cons.IH [OF this] True show ?thesis by simp
  next
    case False
    then have "pushEach owner (e # es) shared = pushEach owner es shared"
      by auto
    with Cons.IH [OF Cons.prems] show ?thesis by simp
  qed
qed

lemma pushEach_noop:
  "\<forall>e \<in> set es. e \<in> set shared \<or> e = owner \<Longrightarrow> pushEach owner es shared = shared"
  by (induction es arbitrary: shared) auto

subsection \<open>What each handler does to the two collections\<close>

lemma createAlbum_db:
  "snd (createAlbum st u uuid now nm descr) = st
   \<or> (\<exists>a. snd (createAlbum st u uuid now nm descr) = st\<lparr>albums := albums st @ [a]\<rparr>
          \<and> sharedWith a = [] \<and> albumId a = uuid \<and> uuid \<notin> albumId ` set (albums st))"
  by (auto simp: createAlbum_def Album_saveNew_def Let_def list_ex_iff split: if_splits)

lemma updateDescription_db:
  "snd (updateDescription st u aid descr) = st
   \<or> (\<exists>a. findOne (\<lambda>a. albumId a = aid) (albums st) = Some a
          \<and> snd (updateDescription st u aid descr) =
              st\<lparr>albums := saveLoaded (\<lambda>a. albumId a = aid)
                     (a\<lparr>description := orElse descr (description a)\<rparr>) (albums st)\<rparr>)"
  by (auto simp: updateDescription_def Let_def split: option.splits)

lemma shareAlbum_db:
  "snd (shareAlbum st u aid emails) = st
   \<or> (\<exists>a. findOne (\<lambda>a. albumId a = aid) (albums st) = Some a
          \<and> snd (shareAlbum st u aid emails) =
              st\<lparr>albums := saveLoaded (\<lambda>a. albumId a = aid)
                     (a\<lparr>sharedWith := pushEach (ownerEmail a)
                           (filter emailRegex_test (elems emails)) (sharedWith a)\<rparr>) (albums st)\<rparr>)"
  by (auto simp: shareAlbum_def Let_def split: option.splits)

lemma deleteAlbum_db:
  "snd (deleteAlbum st u aid) = st
   \<or> snd (deleteAlbum st u aid) =
       \<lparr>albums = deleteOne (\<lambda>a. albumId a = aid) (albums st),
        images = deleteMany (\<lambda>i. imgAlbumId i = aid) (images st)\<rparr>"
  by (auto simp: deleteAlbum_def Let_def split: option.splits)

lemma uploadImage_db:
  "snd (uploadImage P C st u aid file tgs pers fav res uuid now) = st
   \<or> (\<exists>i. snd (uploadImage P C st u aid file tgs pers fav res uuid now) =
              st\<lparr>images := images st @ [i]\<rparr>
          \<and> imageId i = uuid \<and> uuid \<notin> imageId ` set (images st))"
  by (auto simp: uploadImage_def Image_saveNew_def Let_def list_ex_iff
           split: option.splits sum.splits if_splits)

lemma setFavorite_db:
  "snd (setFavorite B st u aid iid fav) = st
   \<or> (\<exists>i b. findOne (\<lambda>i. imageId i = iid \<and> imgAlbumId i = aid) (images st) = Some i
          \<and> snd (setFavorite B st u aid iid fav) =
              st\<lparr>images := saveLoaded (\<lambda>i. imageId i = iid \<and> imgAlbumId i = aid)
                     (i\<lparr>isFavorite := b\<rparr>) (images st)\<rparr>)"
  by (auto simp: setFavorite_def Let_def split: option.splits if_splits)

lemma addComment_db:
  "snd (addComment st u aid iid cmt now) = st
   \<or> (\<exists>i cs. findOne (\<lambda>i. imageId i = iid \<and> imgAlbumId i = aid) (images st) = Some i
          \<and> snd (addComment st u aid iid cmt now) =
              st\<lparr>images := saveLoaded (\<lambda>i. imageId i = iid \<and> imgAlbumId i = aid)
                     (i\<lparr>comments := cs\<rparr>) (images st)\<rparr>)"
  by (auto simp: addComment_def Let_def split: option.splits jsval.splits)

lemma deleteImage_db:
  "snd (deleteImage st u aid iid destroyed) = st
   \<or> snd (deleteImage st u aid iid destroyed) =
       st\<lparr>images := deleteOne (\<lambda>i. imageId i = iid) (images st)\<rparr>"
  by (auto simp: deleteImage_def Let_def split: option.splits)

subsection \<open>Invariants of the server\<close>

lemma sharedOk_saveLoaded:
  assumes "\<forall>a \<in> set docs. sharedOk a" and "sharedOk a'"
  shows "\<forall>a \<in> set (saveLoaded q a' docs). sharedOk a"
  using assms set_saveLoaded [of q a' docs] by auto

lemma step_sharedOk:
  assumes inv: "\<forall>a \<in> set (albums st). sharedOk a"
  shows "\<forall>a \<in> set (albums (step P C B st r)). sharedOk a"
proof (cases r)
  case (CreateAlbum u uuid now nm descr)
  with inv createAlbum_db [of st u uuid now nm descr] show ?thesis
    by (auto simp: sharedOk_def)
next
  case (UpdateDescription u aid descr)
  show ?thesis
  proof (cases "snd (updateDescription st u aid descr) = st")
    case True
    with inv UpdateDescription show ?thesis by simp
  next
    case False
    with updateDescription_db [of st u aid descr] obtain a where
      a: "findOne (\<lambda>a. albumId a = aid) (albums st) = Some a"
      and s: "snd (updateDescription st u aid descr) =
              st\<lparr>albums := saveLoaded (\<lambda>a. albumId a = aid)
                     (a\<lparr>description := orElse descr (description a)\<rparr>) (albums st)\<rparr>"
      by blast
    from a inv have "sharedOk a" using findOne_SomeD by fastforce
    then have "sharedOk (a\<lparr>description := orElse descr (description a)\<rparr>)"
      by (simp add: sharedOk_def)
    from sharedOk_saveLoaded [OF inv this] s UpdateDescription show ?thesis by simp
  qed
next
  case (ShareAlbum u aid emails)
  show ?thesis
  proof (cases "snd (shareAlbum st u aid emails) = st")
    case True
    with inv ShareAlbum show ?thesis by simp
  next
    case False
    with shareAlbum_db [of st u aid emails] obtain a where
      a: "findOne (\<lambda>a. albumId a = aid) (albums st) = Some a"
      and s: "snd (shareAlbum st u aid emails) =
              st\<lparr>albums := saveLoaded (\<lambda>a. albumId a = aid)
                     (a\<lparr>sharedWith := pushEach (ownerEmail a)
                           (filter emailRegex_test (elems emails)) (sharedWith a)\<rparr>) (albums st)\<rparr>"
      by blast
    from a inv have "sharedOk a" using findOne_SomeD by fastforce
    then have "sharedOk (a\<lparr>sharedWith := pushEach (ownerEmail a)
                           (filter emailRegex_test (elems emails)) (sharedWith a)\<rparr>)"
      using pushEach_ok [of "ownerEmail a" "sharedWith a"] by (simp add: sharedOk_def)
    from sharedOk_saveLoaded [OF inv this] s ShareAlbum show ?thesis by simp
  qed
next
  case (DeleteAlbum u aid)
  with inv deleteAlbum_db [of st u aid] set_deleteOne [of "\<lambda>a. albumId a = aid" "albums st"]
  show ?thesis by auto
next
  case (UploadImage u aid fl tgs pers fav res uuid now)
  with inv uploadImage_db [of P C st u aid fl tgs pers fav res uuid now]
  show ?thesis by auto
next
  case (SetFavorite u aid iid fav)
  with inv setFavorite_db [of B st u aid iid fav] show ?thesis by auto
next
  case (AddComment u aid iid cmt now)
  with inv addComment_db [of st u aid iid cmt now] show ?thesis by auto
next
  case (DeleteImage u aid iid destroyed)
  with inv deleteImage_db [of st u aid iid destroyed] show ?thesis by auto
qed

lemma run_sharedOk:
  "\<forall>a \<in> set (albums st). sharedOk a \<Longrightarrow> \<forall>a \<in> set (albums (run P C B st reqs)). sharedOk a"
  unfolding run_def
proof (induction reqs arbitrary: st)
  case Nil
  then show ?case by simp
next
  case (Cons r rs)
  from Cons.IH [OF step_sharedOk [OF Cons.prems, of P C B r]] show ?case by simp
qed

lemma step_uniqueIds:
  assumes inv: "uniqueIds st"
  shows "uniqueIds (step P C B st r)"
proof (cases r)
  case (CreateAlbum u uuid now nm descr)
  with inv createAlbum_db [of st u uuid now nm descr] show ?thesis
    by (auto simp: uniqueIds_def)
next
  case (UpdateDescription u aid descr)
  with inv updateDescription_db [of st u aid descr] show ?thesis
    by (auto simp: uniqueIds_def map_saveLoaded)
next
  case (ShareAlbum u aid emails)
  with inv shareAlbum_db [of st u aid emails] show ?thesis
    by (auto simp: uniqueIds_def map_saveLoaded)
next
  case (DeleteAlbum u aid)
  with inv deleteAlbum_db [of st u aid] show ?thesis
    by (auto simp: uniqueIds_def distinct_deleteOne deleteMany_def distinct_map_filter)
next
  case (UploadImage u aid fl tgs pers fav res uuid now)
  with inv uploadImage_db [of P C st u aid fl tgs pers fav res uuid now] show ?thesis
    by (auto simp: uniqueIds_def)
next
  case (SetFavorite u aid iid fav)
  with inv setFavorite_db [of B st u aid iid fav] show ?thesis
    by (auto simp: uniqueIds_def map_saveLoaded)
next
  case (AddComment u aid iid cmt now)
  with inv addComment_db [of st u aid iid cmt now] show ?thesis
    by (auto simp: uniqueIds_def map_saveLoaded)
next
  case (DeleteImage u aid iid destroyed)
  with inv deleteImage_db [of st u aid iid destroyed] show ?thesis
    by (auto simp: uniqueIds_def distinct_deleteOne)
qed

lemma run_uniqueIds: "uniqueIds st \<Longrightarrow> uniqueIds (run P C B st reqs)"
  unfolding run_def
proof (induction reqs arbitrary: st)
  case Nil
  then show ?case by simp
next
  case (Cons r rs)
  from Cons.IH [OF step_uniqueIds [OF Cons.prems, of P C B r]] show ?case by simp
qed

lemma pushEach_set: "set (pushEach owner es shared) = set shared \<union> (set es - {owner})"
proof (induction es arbitrary: shared)
  case Nil
  then show ?case by simp
next
  case (Cons e es)
  show ?case
  proof (cases "e \<notin> set shared \<and> e \<noteq> owner")
    case True
    then have "pushEach owner (e # es) shared = pushEach owner es (shared @ [e])"
      by simp
    with Cons.IH [of "shared @ [e]"] True show ?thesis by auto
  next
    case False
    then have "pushEach owner (e # es) shared = pushEach owner es shared"
      by auto
    with Cons.IH [of shared] False show ?thesis by auto
  qed
qed

lemma pushEach_prefix: "take (length shared) (pushEach owner es shared) = shared"
proof (induction es arbitrary: shared)
  case Nil
  then show ?case by simp
next
  case (Cons e es)
  show ?case
  proof (cases "e \<notin> set shared \<and> e \<noteq> owner")
    case True
    then have eq: "pushEach owner (e # es) shared = pushEach owner es (shared @ [e])"
      by simp
    have "take (length shared) (pushEach owner es (shared @ [e]))
            = take (length shared) (take (length (shared @ [e])) (pushEach owner es (shared @ [e])))"
      by (simp add: min_def)
    also have "\<dots> = take (length shared) (shared @ [e])"
      by (simp only: Cons.IH [of "shared @ [e]"])
    finally show ?thesis using eq by simp
  next
    case False
    then have "pushEach owner (e # es) shared = pushEach owner es shared"
      by auto
    with Cons.IH [of shared] show ?thesis by simp
  qed
qed

lemma shareAlbum_noop:
  assumes a: "findOne (\<lambda>a. albumId a = aid) (albums st) = Some a"
    and present: "\<forall>e \<in> set es. emailRegex_test e \<longrightarrow> e \<in> set (sharedWith a) \<or> e = ownerEmail a"
  shows "snd (shareAlbum st u aid (JArr es)) = st"
proof -
  from present have "pushEach (ownerEmail a) (filter emailRegex_test es) (sharedWith a) = sharedWith a"
    by (intro pushEach_noop) auto
  then have "a\<lparr>sharedWith := pushEach (ownerEmail a) (filter emailRegex_test es) (sharedWith a)\<rparr> = a"
    by simp
  with a saveLoaded_same [OF a] show ?thesis
    by (simp add: shareAlbum_def Let_def)
qed

lemma shareAlbum_ok:
  assumes ok: "shareAlbum st u aid emails = ((200, Shared m sw), st')"
  shows "\<exists>a. findOne (\<lambda>a. albumId a = aid) (albums st) = Some a
           \<and> ownerId a = userId u
           \<and> set sw = set (sharedWith a)
                \<union> {e \<in> set (elems emails). emailRegex_test e \<and> e \<noteq> ownerEmail a}
           \<and> take (length (sharedWith a)) sw = sharedWith a
           \<and> findOne (\<lambda>a. albumId a = aid) (albums st') = Some (a\<lparr>sharedWith := sw\<rparr>)"
proof (cases "findOne (\<lambda>a. albumId a = aid) (albums st)")
  case None
  with ok show ?thesis by (simp add: shareAlbum_def split: if_splits)
next
  case (Some a)
  let ?sw = "pushEach (ownerEmail a) (filter emailRegex_test (elems emails)) (sharedWith a)"
  from ok Some have own: "ownerId a = userId u" and sw: "sw = ?sw"
    and st': "st' = st\<lparr>albums := saveLoaded (\<lambda>a. albumId a = aid)
                         (a\<lparr>sharedWith := ?sw\<rparr>) (albums st)\<rparr>"
    by (auto simp: shareAlbum_def Let_def split: if_splits)
  from findOne_SomeD [OF Some] have "albumId (a\<lparr>sharedWith := ?sw\<rparr>) = aid" by simp
  from findOne_saveLoaded [OF Some, of "a\<lparr>sharedWith := ?sw\<rparr>"] this st' sw
  have "findOne (\<lambda>a. albumId a = aid) (albums st') = Some (a\<lparr>sharedWith := sw\<rparr>)"
    by simp
  moreover have "set sw = set (sharedWith a)
                \<union> {e \<in> set (elems emails). emailRegex_test e \<and> e \<noteq> ownerEmail a}"
    unfolding sw pushEach_set by auto
  moreover have "take (length (sharedWith a)) sw = sharedWith a"
    unfolding sw by (rule pushEach_prefix)
  ultimately show ?thesis using Some own by blast
qed

lemma createAlbum_ok:
  assumes "createAlbum st u uuid now nm descr = ((201, b), st')"
  shows "\<exists>a. albums st' = albums st @ [a] \<and> sharedWith a = []
             \<and> ownerId a = userId u \<and> ownerEmail a = email u"
  using assms
  by (auto simp: createAlbum_def Album_saveNew_def Let_def split: if_splits)

text \<open>
  C1. In every database the server can reach from the empty one, no album lists its
  owner's email in \<open>sharedWith\<close> and none lists an email twice. A created album starts
  with the empty list; a successful share keeps the old list as a prefix and adds
  exactly the valid emails that differ from the owner's; and a share whose valid
  emails are all listed already, or are the owner's, leaves the database as it was.
\<close>

theorem sharedWith_excludes_owner_and_duplicates:
  "(\<forall>a \<in> set (albums (run P C B emptyDb reqs)).
       ownerEmail a \<notin> set (sharedWith a) \<and> distinct (sharedWith a))
   \<and> (\<forall>b st'. createAlbum st u uuid now nm descr = ((201, b), st') \<longrightarrow>
         (\<exists>a. albums st' = albums st @ [a] \<and> sharedWith a = []))
   \<and> (\<forall>m sw st'. shareAlbum st u aid emails = ((200, Shared m sw), st') \<longrightarrow>
         (\<exists>a. findOne (\<lambda>a. albumId a = aid) (albums st) = Some a
            \<and> set sw = set (sharedWith a)
                 \<union> {e \<in> set (elems emails). emailRegex_test e \<and> e \<noteq> ownerEmail a}
            \<and> take (length (sharedWith a)) sw = sharedWith a
            \<and> findOne (\<lambda>a. albumId a = aid) (albums st') = Some (a\<lparr>sharedWith := sw\<rparr>)))
   \<and> (\<forall>a. findOne (\<lambda>a. albumId a = aid) (albums st) = Some a
           \<and> (\<forall>e \<in> set es. emailRegex_test e \<longrightarrow> e \<in> set (sharedWith a) \<or> e = ownerEmail a)
         \<longrightarrow> snd (shareAlbum st u aid (JArr es)) = st)"
proof -
  have "\<forall>a \<in> set (albums emptyDb). sharedOk a" by (simp add: emptyDb_def)
  from run_sharedOk [OF this, of P C B reqs]
  have c1: "\<forall>a \<in> set (albums (run P C B emptyDb reqs)).
       ownerEmail a \<notin> set (sharedWith a) \<and> distinct (sharedWith a)"
    by (simp add: sharedOk_def)
  have c2: "\<forall>b st'. createAlbum st u uuid now nm descr = ((201, b), st') \<longrightarrow>
         (\<exists>a. albums st' = albums st @ [a] \<and> sharedWith a = [])"
    using createAlbum_ok [of st u uuid now nm descr] by blast
  have c3: "\<forall>m sw st'. shareAlbum st u aid emails = ((200, Shared m sw), st') \<longrightarrow>
         (\<exists>a. findOne (\<lambda>a. albumId a = aid) (albums st) = Some a
            \<and> set sw = set (sharedWith a)
                 \<union> {e \<in> set (elems emails). emailRegex_test e \<and> e \<noteq> ownerEmail a}
            \<and> take (length (sharedWith a)) sw = sharedWith a
            \<and> findOne (\<lambda>a. albumId a = aid) (albums st') = Some (a\<lparr>sharedWith := sw\<rparr>))"
    using shareAlbum_ok [of st u aid emails] by blast
  have c4: "\<forall>a. findOne (\<lambda>a. albumId a = aid) (albums st) = Some a
           \<and> (\<forall>e \<in> set es. emailRegex_test e \<longrightarrow> e \<in> set (sharedWith a) \<or> e = ownerEmail a)
         \<longrightarrow> snd (shareAlbum st u aid (JArr es)) = st"
    using shareAlbum_noop [of aid st _ es u] by blast
  from c1 c2 c3 c4 show ?thesis by blast
qed

theorem sharedWith_excludes_owner_and_duplicates_witness:
  "albums (run parse1 noCast noFlag emptyDb
      [CreateAlbum ann ''a1'' 1 (Some ''Trip'') (Some ''sea''),
       ShareAlbum ann ''a1'' (JArr [''bob@x.io'', ''ann@x.io'', ''bob@x.io'', ''nope''])]) = [trip]
   \<and> ownerEmail trip \<notin> set (sharedWith trip) \<and> distinct (sharedWith trip)
   \<and> fst (createAlbum db1 ann ''a2'' 5 (Some ''New'') None)
        = (201, AlbumCreated ''Album created successfully'' ''a2'' ''New'' [] ''u1'' [])
   \<and> (\<exists>a. albums (snd (createAlbum db1 ann ''a2'' 5 (Some ''New'') None)) = albums db1 @ [a]
          \<and> sharedWith a = [])
   \<and> fst (shareAlbum db1 ann ''a1'' (JArr [''cy@x.io'', ''ann@x.io'', ''cy@x.io'']))
        = (200, Shared ''Album shared successfully'' [''bob@x.io'', ''cy@x.io''])
   \<and> findOne (\<lambda>a. albumId a = ''a1'')
        (albums (snd (shareAlbum db1 ann ''a1'' (JArr [''cy@x.io'', ''ann@x.io'', ''cy@x.io'']))))
        = Some (trip\<lparr>sharedWith := [''bob@x.io'', ''cy@x.io'']\<rparr>)
   \<and> findOne (\<lambda>a. albumId a = ''a1'') (albums db1) = Some trip
   \<and> snd (shareAlbum db1 ann ''a1'' (JArr [''bob@x.io'', ''ann@x.io''])) = db1"
proof -
  let ?reqs = "[CreateAlbum ann ''a1'' 1 (Some ''Trip'') (Some ''sea''),
       ShareAlbum ann ''a1'' (JArr [''bob@x.io'', ''ann@x.io'', ''bob@x.io'', ''nope''])]"
  let ?es = "[''bob@x.io'', ''ann@x.io'']"
  let ?emails = "JArr [''cy@x.io'', ''ann@x.io'', ''cy@x.io'']"
  let ?created = "createAlbum db1 ann ''a2'' 5 (Some ''New'') None"
  let ?shared = "shareAlbum db1 ann ''a1'' ?emails"
  note inst = sharedWith_excludes_owner_and_duplicates
      [of parse1 noCast noFlag ?reqs db1 ann "''a2''" 5 "Some ''New''" None "''a1''" ?emails ?es]
  have r: "albums (run parse1 noCast noFlag emptyDb ?reqs) = [trip]"
    by code_simp
  have c: "fst ?created
        = (201, AlbumCreated ''Album created successfully'' ''a2'' ''New'' [] ''u1'' [])"
    by code_simp
  have s: "fst ?shared = (200, Shared ''Album shared successfully'' [''bob@x.io'', ''cy@x.io''])"
    by code_simp
  have f: "findOne (\<lambda>a. albumId a = ''a1'') (albums db1) = Some trip"
    by code_simp
  have p: "\<forall>e \<in> set ?es. emailRegex_test e \<longrightarrow> e \<in> set (sharedWith trip) \<or> e = ownerEmail trip"
    by (simp add: trip_def)
  from inst [THEN conjunct1] have "\<forall>a \<in> set [trip].
       ownerEmail a \<notin> set (sharedWith a) \<and> distinct (sharedWith a)"
    unfolding r .
  then have i: "ownerEmail trip \<notin> set (sharedWith trip)" "distinct (sharedWith trip)"
    by simp_all
  from c have "?created = ((201, AlbumCreated ''Album created successfully'' ''a2''
                    ''New'' [] ''u1'' []), snd ?created)"
    by (simp add: prod_eq_iff)
  from inst [THEN conjunct2, THEN conjunct1, rule_format, OF this]
  have n: "\<exists>a. albums (snd ?created) = albums db1 @ [a] \<and> sharedWith a = []" .
  from s have "?shared = ((200, Shared ''Album shared successfully'' [''bob@x.io'', ''cy@x.io'']),
                 snd ?shared)"
    by (simp add: prod_eq_iff)
  from inst [THEN conjunct2, THEN conjunct2, THEN conjunct1, rule_format, OF this]
  obtain a where a: "findOne (\<lambda>a. albumId a = ''a1'') (albums db1) = Some a"
    and a': "findOne (\<lambda>a. albumId a = ''a1'') (albums (snd ?shared))
               = Some (a\<lparr>sharedWith := [''bob@x.io'', ''cy@x.io'']\<rparr>)"
    by blast
  from a f have "a = trip" by simp
  with a' have g: "findOne (\<lambda>a. albumId a = ''a1'') (albums (snd ?shared))
               = Some (trip\<lparr>sharedWith := [''bob@x.io'', ''cy@x.io'']\<rparr>)"
    by simp
  from inst [THEN conjunct2, THEN conjunct2, THEN conjunct2, rule_format, of trip] f p
  have u: "snd (shareAlbum db1 ann ''a1'' (JArr ?es)) = db1"
    by blast
  from r i c n s g f u show ?thesis
    by (intro conjI)
qed

subsection \<open>Read access\<close>

lemma getAlbum_forbidden:
  "findOne (\<lambda>x. albumId x = aid) (albums st) = Some a \<Longrightarrow>
     getAlbum st p aid = (403, Error ''You do not have access to this album'') \<longleftrightarrow> \<not> hasAccess a p"
  by (simp add: getAlbum_def)

lemma listImages_forbidden:
  "findOne (\<lambda>x. albumId x = aid) (albums st) = Some a \<Longrightarrow>
     listImages st p aid q = (403, Error ''You do not have access to this album'')
       \<longleftrightarrow> \<not> hasAccess a p"
  by (simp add: listImages_def Let_def)

lemma listFavorites_forbidden:
  "findOne (\<lambda>x. albumId x = aid) (albums st) = Some a \<Longrightarrow>
     listFavorites st p aid = (403, Error ''You do not have access to this album'')
       \<longleftrightarrow> \<not> hasAccess a p"
  by (simp add: listFavorites_def)

lemma getImageUrl_forbidden:
  "findOne (\<lambda>x. albumId x = aid) (albums st) = Some a \<Longrightarrow>
     getImageUrl st p aid iid = (403, Error ''You do not have access to this album'')
       \<longleftrightarrow> \<not> hasAccess a p"
  by (simp add: getImageUrl_def split: option.splits)

lemma setFavorite_forbidden:
  "findOne (\<lambda>x. albumId x = aid) (albums st) = Some a \<Longrightarrow>
     setFavorite B st p aid iid fav = ((403, Error ''You do not have access to this album''), st)
       \<longleftrightarrow> \<not> hasAccess a p"
  by (simp add: setFavorite_def Let_def split: option.splits)

lemma uploadImage_forbidden:
  "findOne (\<lambda>x. albumId x = aid) (albums st) = Some a \<Longrightarrow>
     uploadImage P C st p aid (Some f) tgs pers fav res uuid now
         = ((403, Error ''You do not have access to this album''), st)
       \<longleftrightarrow> \<not> hasAccess a p"
  by (simp add: uploadImage_def Let_def split: option.splits sum.splits)

lemma addComment_forbidden:
  "findOne (\<lambda>x. albumId x = aid) (albums st) = Some a \<Longrightarrow> trim t \<noteq> [] \<Longrightarrow>
     addComment st p aid iid (JStr t) now
         = ((403, Error ''You do not have access to this album''), st)
       \<longleftrightarrow> \<not> hasAccess a p"
  by (auto simp: addComment_def Let_def trim_def split: option.splits)

text \<open>
  C2. The read-access test is true exactly for the owner (by \<open>userId\<close>) and for a
  principal whose email is in \<open>sharedWith\<close>. For an album that exists, each handler
  that makes the test (get album, list images, list favorites, image url, set
  favorite, upload with a file, add comment with a non-blank text) answers 403
  Forbidden, and leaves the database as it was, exactly when the test is false; the
  404 of a missing album is a different response.
\<close>

theorem hasAccess_owner_or_shared:
  "(hasAccess a p \<longleftrightarrow> userId p = ownerId a \<or> email p \<in> set (sharedWith a))
   \<and> (findOne (\<lambda>x. albumId x = aid) (albums st) = Some a \<longrightarrow>
        (getAlbum st p aid = (403, Error ''You do not have access to this album'')
           \<longleftrightarrow> \<not> hasAccess a p)
      \<and> (listImages st p aid q = (403, Error ''You do not have access to this album'')
           \<longleftrightarrow> \<not> hasAccess a p)
      \<and> (listFavorites st p aid = (403, Error ''You do not have access to this album'')
           \<longleftrightarrow> \<not> hasAccess a p)
      \<and> (getImageUrl st p aid iid = (403, Error ''You do not have access to this album'')
           \<longleftrightarrow> \<not> hasAccess a p)
      \<and> (setFavorite B st p aid iid fav
             = ((403, Error ''You do not have access to this album''), st)
           \<longleftrightarrow> \<not> hasAccess a p)
      \<and> (uploadImage P C st p aid (Some f) tgs pers ufav res uuid now
             = ((403, Error ''You do not have access to this album''), st)
           \<longleftrightarrow> \<not> hasAccess a p)
      \<and> (trim t \<noteq> [] \<longrightarrow>
           (addComment st p aid iid (JStr t) now
              = ((403, Error ''You do not have access to this album''), st)
            \<longleftrightarrow> \<not> hasAccess a p)))
   \<and> (findOne (\<lambda>x. albumId x = aid) (albums st) = None \<longrightarrow>
        getAlbum st p aid = (404, Error ''Album not found''))"
proof -
  have h: "hasAccess a p \<longleftrightarrow> userId p = ownerId a \<or> email p \<in> set (sharedWith a)"
    by (auto simp: hasAccess_def)
  have n: "findOne (\<lambda>x. albumId x = aid) (albums st) = None \<longrightarrow>
        getAlbum st p aid = (404, Error ''Album not found'')"
    by (simp add: getAlbum_def)
  from h n getAlbum_forbidden [of aid st a p] listImages_forbidden [of aid st a p q]
    listFavorites_forbidden [of aid st a p] getImageUrl_forbidden [of aid st a p iid]
    setFavorite_forbidden [where aid = aid and st = st and a = a and B = B and p = p
      and iid = iid and fav = fav]
    uploadImage_forbidden [of aid st a P C p f tgs pers ufav res uuid now]
    addComment_forbidden [of aid st a t p iid now]
  show ?thesis by blast
qed

theorem hasAccess_owner_or_shared_witness:
  "findOne (\<lambda>x. albumId x = ''a1'') (albums db1) = Some trip
   \<and> trim ''hi'' \<noteq> []
   \<and> \<not> hasAccess trip cy
   \<and> getAlbum db1 cy ''a1'' = (403, Error ''You do not have access to this album'')
   \<and> listImages db1 cy ''a1'' None = (403, Error ''You do not have access to this album'')
   \<and> listFavorites db1 cy ''a1'' = (403, Error ''You do not have access to this album'')
   \<and> getImageUrl db1 cy ''a1'' ''i1'' = (403, Error ''You do not have access to this album'')
   \<and> setFavorite noFlag db1 cy ''a1'' ''i1'' JUndefined
        = ((403, Error ''You do not have access to this album''), db1)
   \<and> uploadImage parse1 noCast db1 cy ''a1'' (Some \<lparr>originalname = ''q.png''\<rparr>) JUndefined None
        JUndefined (Inr \<lparr>secure_url = ''https://h/q'', public_id = ''k/q'', bytes = 7\<rparr>) ''i2'' 3
        = ((403, Error ''You do not have access to this album''), db1)
   \<and> addComment db1 cy ''a1'' ''i1'' (JStr ''hi'') 3
        = ((403, Error ''You do not have access to this album''), db1)
   \<and> hasAccess trip ann \<and> hasAccess trip bob
   \<and> getAlbum db1 bob ''a1'' = (200, AlbumDoc trip)
   \<and> getAlbum db1 cy ''zz'' = (404, Error ''Album not found'')"
proof -
  have f: "findOne (\<lambda>x. albumId x = ''a1'') (albums db1) = Some trip"
    by code_simp
  have t: "trim ''hi'' \<noteq> []"
    by code_simp
  have c: "\<not> (userId cy = ownerId trip \<or> email cy \<in> set (sharedWith trip))"
    by (simp add: cy_def trip_def)
  have z: "findOne (\<lambda>x. albumId x = ''zz'') (albums db1) = None"
    by code_simp
  note inst = hasAccess_owner_or_shared [where a = trip and p = cy and aid = "''a1''"
      and st = db1 and q = None and iid = "''i1''" and fav = JUndefined and B = noFlag and P = parse1 and C = noCast
      and f = "\<lparr>originalname = ''q.png''\<rparr>" and tgs = JUndefined and pers = None
      and ufav = JUndefined
      and res = "Inr \<lparr>secure_url = ''https://h/q'', public_id = ''k/q'', bytes = 7\<rparr>"
      and uuid = "''i2''" and now = 3 and t = "''hi''"]
  from inst [THEN conjunct1] c have na: "\<not> hasAccess trip cy"
    by blast
  note hs = inst [THEN conjunct2, THEN conjunct1, rule_format, OF f]
  from hs na t have
    "getAlbum db1 cy ''a1'' = (403, Error ''You do not have access to this album'')"
    "listImages db1 cy ''a1'' None = (403, Error ''You do not have access to this album'')"
    "listFavorites db1 cy ''a1'' = (403, Error ''You do not have access to this album'')"
    "getImageUrl db1 cy ''a1'' ''i1'' = (403, Error ''You do not have access to this album'')"
    "setFavorite noFlag db1 cy ''a1'' ''i1'' JUndefined
        = ((403, Error ''You do not have access to this album''), db1)"
    "uploadImage parse1 noCast db1 cy ''a1'' (Some \<lparr>originalname = ''q.png''\<rparr>) JUndefined None
        JUndefined (Inr \<lparr>secure_url = ''https://h/q'', public_id = ''k/q'', bytes = 7\<rparr>) ''i2'' 3
        = ((403, Error ''You do not have access to this album''), db1)"
    "addComment db1 cy ''a1'' ''i1'' (JStr ''hi'') 3
        = ((403, Error ''You do not have access to this album''), db1)"
    by blast+
  moreover have "hasAccess trip ann" "hasAccess trip bob"
    using hasAccess_owner_or_shared [where a = trip and p = ann, THEN conjunct1]
      hasAccess_owner_or_shared [where a = trip and p = bob, THEN conjunct1]
    by (simp_all add: ann_def bob_def trip_def)
  moreover have "getAlbum db1 bob ''a1'' = (200, AlbumDoc trip)"
    by code_simp
  moreover have "getAlbum db1 cy ''zz'' = (404, Error ''Album not found'')"
    using hasAccess_owner_or_shared [where p = cy and aid = "''zz''" and st = db1,
        THEN conjunct2, THEN conjunct2] z
    by blast
  ultimately show ?thesis using f t na by (intro conjI)
qed

subsection \<open>Deleting an album\<close>

lemma deleteAlbum_ok:
  assumes ok: "deleteAlbum st p aid = ((200, b), st')"
  shows "(\<exists>a. findOne (\<lambda>x. albumId x = aid) (albums st) = Some a \<and> ownerId a = userId p)
       \<and> images st' = filter (\<lambda>i. imgAlbumId i \<noteq> aid) (images st)
       \<and> albums st' = deleteOne (\<lambda>x. albumId x = aid) (albums st)"
  using ok
  by (auto simp: deleteAlbum_def deleteMany_def Let_def split: option.splits if_splits)

lemma deleteAlbum_status:
  "findOne (\<lambda>x. albumId x = aid) (albums st) = Some a \<Longrightarrow>
     fst (fst (deleteAlbum st p aid)) = 200 \<longleftrightarrow> ownerId a = userId p"
  by (simp add: deleteAlbum_def Let_def)

lemma deleteAlbum_forbidden:
  "findOne (\<lambda>x. albumId x = aid) (albums st) = Some a \<Longrightarrow> ownerId a \<noteq> userId p \<Longrightarrow>
     deleteAlbum st p aid = ((403, Error ''Only the album owner can delete it''), st)"
  by (simp add: deleteAlbum_def)

lemma getAlbum_after_deleteOne:
  assumes "distinct (map albumId docs)"
  shows "getAlbum \<lparr>albums = deleteOne (\<lambda>x. albumId x = aid) docs, images = imgs\<rparr> q aid
           = (404, Error ''Album not found'')"
proof -
  have "\<forall>d \<in> set (deleteOne (\<lambda>x. albumId x = aid) docs). albumId d \<noteq> aid"
    using deleteOne_key_gone [OF assms] by blast
  then have "findOne (\<lambda>x. albumId x = aid) (deleteOne (\<lambda>x. albumId x = aid) docs) = None"
    by (simp add: findOne_None_iff)
  then show ?thesis by (simp add: getAlbum_def)
qed

text \<open>
  C3. Deleting an album answers 200 only to the owner (and, when the album exists,
  to the owner always; anybody else gets 403 and nothing changes). After a successful
  delete the image collection is the old one without the images of that album, so
  none of them remains and every other image is kept; every other album is kept; and,
  album ids being unique as the schema's index has them, \<open>getAlbum\<close> for the deleted
  id answers 404 to everybody. Album ids are unique in every database the server
  reaches from the empty one.
\<close>

theorem deleteAlbum_cascades:
  "(\<forall>b st'. deleteAlbum st p aid = ((200, b), st') \<longrightarrow>
       (\<exists>a. findOne (\<lambda>x. albumId x = aid) (albums st) = Some a \<and> ownerId a = userId p)
     \<and> images st' = filter (\<lambda>i. imgAlbumId i \<noteq> aid) (images st)
     \<and> (\<forall>i \<in> set (images st'). imgAlbumId i \<noteq> aid)
     \<and> (\<forall>x \<in> set (albums st). albumId x \<noteq> aid \<longrightarrow> x \<in> set (albums st'))
     \<and> (distinct (map albumId (albums st)) \<longrightarrow>
          (\<forall>q. getAlbum st' q aid = (404, Error ''Album not found''))))
   \<and> (\<forall>a. findOne (\<lambda>x. albumId x = aid) (albums st) = Some a \<longrightarrow>
         (fst (fst (deleteAlbum st p aid)) = 200 \<longleftrightarrow> ownerId a = userId p)
       \<and> (ownerId a \<noteq> userId p \<longrightarrow>
            deleteAlbum st p aid = ((403, Error ''Only the album owner can delete it''), st)))
   \<and> distinct (map albumId (albums (run P C B emptyDb reqs)))"
proof -
  have part1: "(\<exists>a. findOne (\<lambda>x. albumId x = aid) (albums st) = Some a \<and> ownerId a = userId p)
     \<and> images st' = filter (\<lambda>i. imgAlbumId i \<noteq> aid) (images st)
     \<and> (\<forall>i \<in> set (images st'). imgAlbumId i \<noteq> aid)
     \<and> (\<forall>x \<in> set (albums st). albumId x \<noteq> aid \<longrightarrow> x \<in> set (albums st'))
     \<and> (distinct (map albumId (albums st)) \<longrightarrow>
          (\<forall>q. getAlbum st' q aid = (404, Error ''Album not found'')))"
    if ok: "deleteAlbum st p aid = ((200, b), st')" for b st'
  proof -
    note d = deleteAlbum_ok [OF ok]
    from d have imgs: "images st' = filter (\<lambda>i. imgAlbumId i \<noteq> aid) (images st)"
      and albs: "albums st' = deleteOne (\<lambda>x. albumId x = aid) (albums st)"
      by simp_all
    from imgs have gone: "\<forall>i \<in> set (images st'). imgAlbumId i \<noteq> aid"
      by simp
    from albs have kept: "\<forall>x \<in> set (albums st). albumId x \<noteq> aid \<longrightarrow> x \<in> set (albums st')"
      using deleteOne_others [of _ "albums st" "\<lambda>x. albumId x = aid"] by simp
    have nf: "getAlbum st' q aid = (404, Error ''Album not found'')"
      if u: "distinct (map albumId (albums st))" for q
    proof -
      have "st' = \<lparr>albums = deleteOne (\<lambda>x. albumId x = aid) (albums st), images = images st'\<rparr>"
        using albs by simp
      with getAlbum_after_deleteOne [OF u, of aid "images st'" q] show ?thesis
        by simp
    qed
    from d imgs gone kept nf show ?thesis by blast
  qed
  have part2: "\<forall>a. findOne (\<lambda>x. albumId x = aid) (albums st) = Some a \<longrightarrow>
         (fst (fst (deleteAlbum st p aid)) = 200 \<longleftrightarrow> ownerId a = userId p)
       \<and> (ownerId a \<noteq> userId p \<longrightarrow>
            deleteAlbum st p aid = ((403, Error ''Only the album owner can delete it''), st))"
    using deleteAlbum_status [of aid st _ p] deleteAlbum_forbidden [of aid st _ p] by blast
  have "uniqueIds emptyDb" by (simp add: uniqueIds_def emptyDb_def)
  from run_uniqueIds [OF this, of P C B reqs]
  have part3: "distinct (map albumId (albums (run P C B emptyDb reqs)))"
    by (simp add: uniqueIds_def)
  from part1 part2 part3 show ?thesis by blast
qed

theorem deleteAlbum_cascades_witness:
  "deleteAlbum db2 ann ''a1''
     = ((200, Message ''Album and all associated images deleted successfully''),
        \<lparr>albums = [hut], images = [pic2]\<rparr>)
   \<and> findOne (\<lambda>x. albumId x = ''a1'') (albums db2) = Some trip
   \<and> ownerId trip = userId ann
   \<and> distinct (map albumId (albums db2))
   \<and> getAlbum \<lparr>albums = [hut], images = [pic2]\<rparr> bob ''a1'' = (404, Error ''Album not found'')
   \<and> imgAlbumId pic2 \<noteq> ''a1''
   \<and> ownerId trip \<noteq> userId bob
   \<and> deleteAlbum db2 bob ''a1'' = ((403, Error ''Only the album owner can delete it''), db2)"
proof -
  let ?after = "\<lparr>albums = [hut], images = [pic2]\<rparr>"
  have ok: "deleteAlbum db2 ann ''a1''
     = ((200, Message ''Album and all associated images deleted successfully''), ?after)"
    by code_simp
  have f: "findOne (\<lambda>x. albumId x = ''a1'') (albums db2) = Some trip"
    by code_simp
  have o: "ownerId trip = userId ann" "ownerId trip \<noteq> userId bob"
    by (simp_all add: trip_def ann_def bob_def)
  have u: "distinct (map albumId (albums db2))"
    by (simp add: db2_def trip_def hut_def)
  note inst = deleteAlbum_cascades [where st = db2 and aid = "''a1''"]
  note succ = inst [where p = ann, THEN conjunct1, rule_format, OF ok]
  from succ u have g: "getAlbum ?after bob ''a1'' = (404, Error ''Album not found'')"
    by blast
  from succ have "\<forall>i \<in> set (images ?after). imgAlbumId i \<noteq> ''a1''"
    by blast
  then have i: "imgAlbumId pic2 \<noteq> ''a1''"
    by simp
  from inst [where p = bob, THEN conjunct2, THEN conjunct1, rule_format, OF f] o
  have d: "deleteAlbum db2 bob ''a1'' = ((403, Error ''Only the album owner can delete it''), db2)"
    by blast
  from ok f o u g i d show ?thesis by (intro conjI)
qed

subsection \<open>Deleting an image\<close>

lemma deleteOne_filter:
  "distinct (map f docs) \<Longrightarrow> deleteOne (\<lambda>x. f x = k) docs = filter (\<lambda>x. f x \<noteq> k) docs"
proof (induction docs)
  case Nil
  then show ?case by simp
next
  case (Cons x xs)
  show ?case
  proof (cases "f x = k")
    case True
    with Cons.prems have "f x \<notin> f ` set xs" by simp
    with True have "\<forall>y \<in> set xs. f y \<noteq> k" by blast
    then have "filter (\<lambda>x. f x \<noteq> k) xs = xs" by simp
    with True show ?thesis by simp
  next
    case False
    with Cons show ?thesis by simp
  qed
qed

lemma deleteImage_result:
  assumes "findOne (\<lambda>x. albumId x = aid) (albums st) = Some a"
    and "findOne (\<lambda>x. imageId x = iid \<and> imgAlbumId x = aid) (images st) = Some i"
  shows "deleteImage st p aid iid d =
           (if userId p = ownerId a \<or> userId p = uploadedBy i
            then ((200, Message ''Image deleted successfully''),
                  st\<lparr>images := deleteOne (\<lambda>x. imageId x = iid) (images st)\<rparr>)
            else ((403, Error ''You do not have permission to delete this image''), st))"
  using assms by (auto simp: deleteImage_def Let_def)

text \<open>
  C4. For an album that exists and an image found in it, deleting the image answers
  200 exactly when the principal is the album's owner or the image's uploader.
  Anybody else gets 403 and the database is as it was, so the image is still found.
  On success the first stored image with that \<open>imageId\<close> is removed; image ids being
  unique, as the schema's index has them, that is the image itself and every other
  image is kept.
\<close>

theorem deleteImage_owner_or_uploader:
  "findOne (\<lambda>x. albumId x = aid) (albums st) = Some a
   \<and> findOne (\<lambda>x. imageId x = iid \<and> imgAlbumId x = aid) (images st) = Some i \<longrightarrow>
     (fst (fst (deleteImage st p aid iid d)) = 200
        \<longleftrightarrow> userId p = ownerId a \<or> userId p = uploadedBy i)
   \<and> (\<not> (userId p = ownerId a \<or> userId p = uploadedBy i) \<longrightarrow>
        deleteImage st p aid iid d
          = ((403, Error ''You do not have permission to delete this image''), st)
      \<and> findOne (\<lambda>x. imageId x = iid \<and> imgAlbumId x = aid)
           (images (snd (deleteImage st p aid iid d))) = Some i)
   \<and> (userId p = ownerId a \<or> userId p = uploadedBy i \<longrightarrow>
        deleteImage st p aid iid d
          = ((200, Message ''Image deleted successfully''),
             st\<lparr>images := deleteOne (\<lambda>x. imageId x = iid) (images st)\<rparr>)
      \<and> (distinct (map imageId (images st)) \<longrightarrow>
           images (snd (deleteImage st p aid iid d))
             = filter (\<lambda>x. imageId x \<noteq> iid) (images st)))"
proof (intro impI)
  assume found: "findOne (\<lambda>x. albumId x = aid) (albums st) = Some a
   \<and> findOne (\<lambda>x. imageId x = iid \<and> imgAlbumId x = aid) (images st) = Some i"
  note r = deleteImage_result [OF found [THEN conjunct1] found [THEN conjunct2], of p d]
  show "(fst (fst (deleteImage st p aid iid d)) = 200
        \<longleftrightarrow> userId p = ownerId a \<or> userId p = uploadedBy i)
   \<and> (\<not> (userId p = ownerId a \<or> userId p = uploadedBy i) \<longrightarrow>
        deleteImage st p aid iid d
          = ((403, Error ''You do not have permission to delete this image''), st)
      \<and> findOne (\<lambda>x. imageId x = iid \<and> imgAlbumId x = aid)
           (images (snd (deleteImage st p aid iid d))) = Some i)
   \<and> (userId p = ownerId a \<or> userId p = uploadedBy i \<longrightarrow>
        deleteImage st p aid iid d
          = ((200, Message ''Image deleted successfully''),
             st\<lparr>images := deleteOne (\<lambda>x. imageId x = iid) (images st)\<rparr>)
      \<and> (distinct (map imageId (images st)) \<longrightarrow>
           images (snd (deleteImage st p aid iid d))
             = filter (\<lambda>x. imageId x \<noteq> iid) (images st)))"
  proof (cases "userId p = ownerId a \<or> userId p = uploadedBy i")
    case True
    with r have e: "deleteImage st p aid iid d
          = ((200, Message ''Image deleted successfully''),
             st\<lparr>images := deleteOne (\<lambda>x. imageId x = iid) (images st)\<rparr>)"
      by simp
    then have "distinct (map imageId (images st)) \<longrightarrow>
           images (snd (deleteImage st p aid iid d))
             = filter (\<lambda>x. imageId x \<noteq> iid) (images st)"
      by (simp add: deleteOne_filter)
    with e True show ?thesis by simp
  next
    case False
    with r have e: "deleteImage st p aid iid d
          = ((403, Error ''You do not have permission to delete this image''), st)"
      by simp
    with found False show ?thesis by simp
  qed
qed

theorem deleteImage_owner_or_uploader_witness:
  "findOne (\<lambda>x. albumId x = ''a1'') (albums db2) = Some trip
   \<and> findOne (\<lambda>x. imageId x = ''i1'' \<and> imgAlbumId x = ''a1'') (images db2) = Some pic
   \<and> distinct (map imageId (images db2))
   \<and> userId cy \<noteq> ownerId trip \<and> userId cy \<noteq> uploadedBy pic
   \<and> deleteImage db2 cy ''a1'' ''i1'' True
        = ((403, Error ''You do not have permission to delete this image''), db2)
   \<and> userId ann = ownerId trip
   \<and> deleteImage db2 ann ''a1'' ''i1'' False
        = ((200, Message ''Image deleted successfully''), db2\<lparr>images := [pic2]\<rparr>)
   \<and> userId bob = uploadedBy pic
   \<and> fst (fst (deleteImage db2 bob ''a1'' ''i1'' True)) = 200"
proof -
  have f: "findOne (\<lambda>x. albumId x = ''a1'') (albums db2) = Some trip"
    "findOne (\<lambda>x. imageId x = ''i1'' \<and> imgAlbumId x = ''a1'') (images db2) = Some pic"
    by code_simp+
  have u: "distinct (map imageId (images db2))"
    by (simp add: db2_def pic_def pic2_def)
  have w: "userId cy \<noteq> ownerId trip" "userId cy \<noteq> uploadedBy pic"
    "userId ann = ownerId trip" "userId bob = uploadedBy pic"
    by (simp_all add: cy_def ann_def bob_def trip_def pic_def)
  have k: "deleteOne (\<lambda>x. imageId x = ''i1'') (images db2) = [pic2]"
    by code_simp
  note inst = deleteImage_owner_or_uploader [where st = db2 and aid = "''a1''" and iid = "''i1''"
      and a = trip and i = pic, rule_format, OF conjI [OF f]]
  from inst [where p = cy and d = True] w
  have c: "deleteImage db2 cy ''a1'' ''i1'' True
        = ((403, Error ''You do not have permission to delete this image''), db2)"
    by blast
  from inst [where p = ann and d = False] w
  have "deleteImage db2 ann ''a1'' ''i1'' False
        = ((200, Message ''Image deleted successfully''),
           db2\<lparr>images := deleteOne (\<lambda>x. imageId x = ''i1'') (images db2)\<rparr>)"
    by blast
  then have a: "deleteImage db2 ann ''a1'' ''i1'' False
        = ((200, Message ''Image deleted successfully''), db2\<lparr>images := [pic2]\<rparr>)"
    unfolding k .
  from inst [where p = bob and d = True] w
  have b: "fst (fst (deleteImage db2 bob ''a1'' ''i1'' True)) = 200"
    by blast
  from f u w c a b show ?thesis by (intro conjI)
qed

subsection \<open>The favorite flag\<close>

lemma saveLoaded_twice:
  "q d1 \<Longrightarrow> saveLoaded q d2 (saveLoaded q d1 docs) = saveLoaded q d2 docs"
  by (induction docs) auto

lemma setFavorite_result:
  assumes "findOne (\<lambda>x. albumId x = aid) (albums st) = Some a"
    and "hasAccess a p"
    and "findOne (\<lambda>x. imageId x = iid \<and> imgAlbumId x = aid) (images st) = Some i"
    and "(if fav \<noteq> JUndefined then storedFlag B fav
          else Some (Some (\<not> truthyFlag (isFavorite i)))) = Some v"
  shows "setFavorite B st p aid iid fav =
           ((200, FavoriteSet ''Image favorite status updated'' v),
            st\<lparr>images := saveLoaded (\<lambda>x. imageId x = iid \<and> imgAlbumId x = aid)
                   (i\<lparr>isFavorite := v\<rparr>) (images st)\<rparr>)"
  using assms by (simp add: setFavorite_def Let_def)

lemma setFavorite_rejected:
  assumes "findOne (\<lambda>x. albumId x = aid) (albums st) = Some a"
    and "hasAccess a p"
    and "findOne (\<lambda>x. imageId x = iid \<and> imgAlbumId x = aid) (images st) = Some i"
    and "fav \<noteq> JUndefined" and "storedFlag B fav = None"
  shows "setFavorite B st p aid iid fav
           = ((500, Error ''Failed to update favorite status''), st)"
  using assms by (simp add: setFavorite_def)

lemma setFavorite_toggle_twice:
  assumes a: "findOne (\<lambda>x. albumId x = aid) (albums st) = Some a"
    and h: "hasAccess a p"
    and i: "findOne (\<lambda>x. imageId x = iid \<and> imgAlbumId x = aid) (images st) = Some i"
  shows "snd (setFavorite B (snd (setFavorite B st p aid iid JUndefined)) p aid iid JUndefined)
           = st\<lparr>images := saveLoaded (\<lambda>x. imageId x = iid \<and> imgAlbumId x = aid)
                  (i\<lparr>isFavorite := Some (truthyFlag (isFavorite i))\<rparr>) (images st)\<rparr>"
proof -
  let ?q = "\<lambda>x. imageId x = iid \<and> imgAlbumId x = aid"
  let ?i1 = "i\<lparr>isFavorite := Some (\<not> truthyFlag (isFavorite i))\<rparr>"
  let ?i2 = "i\<lparr>isFavorite := Some (truthyFlag (isFavorite i))\<rparr>"
  let ?st1 = "st\<lparr>images := saveLoaded ?q ?i1 (images st)\<rparr>"
  from findOne_SomeD [OF i] have q1: "?q ?i1" by simp
  have s1: "snd (setFavorite B st p aid iid JUndefined) = ?st1"
    using setFavorite_result [OF a h i, of JUndefined B] by simp
  have a1: "findOne (\<lambda>x. albumId x = aid) (albums ?st1) = Some a"
    using a by simp
  have i1: "findOne ?q (images ?st1) = Some ?i1"
    using findOne_saveLoaded [OF i q1] by simp
  have "snd (setFavorite B ?st1 p aid iid JUndefined)
          = ?st1\<lparr>images := saveLoaded ?q
               (?i1\<lparr>isFavorite := Some (\<not> truthyFlag (isFavorite ?i1))\<rparr>) (images ?st1)\<rparr>"
    using setFavorite_result [OF a1 h i1, of JUndefined B] by simp
  also have "\<dots> = st\<lparr>images := saveLoaded ?q ?i2 (saveLoaded ?q ?i1 (images st))\<rparr>"
    by simp
  also have "\<dots> = st\<lparr>images := saveLoaded ?q ?i2 (images st)\<rparr>"
    using saveLoaded_twice [of ?q ?i1 ?i2 "images st"] q1 by simp
  finally show ?thesis using s1 by simp
qed

text \<open>
  C5 does not hold as it is stated. The handler takes every value but
  \<^verbatim>\<open>undefined\<close> as given, so \<^verbatim>\<open>null\<close> can be assigned, and the path holds it:
  the request answers 200 and the database is then \<open>db3\<close>. From there two requests
  with no value store \<^verbatim>\<open>true\<close> and then \<^verbatim>\<open>false\<close>: the flag does not return to
  the \<^verbatim>\<open>null\<close> it started from.
\<close>

theorem setFavorite_toggle_twice_from_null:
  "setFavorite noFlag db2 bob ''a1'' ''i1'' JNull
     = ((200, FavoriteSet ''Image favorite status updated'' None), db3)
   \<and> findOne (\<lambda>x. imageId x = ''i1'' \<and> imgAlbumId x = ''a1'') (images db3)
       = Some (pic\<lparr>isFavorite := None\<rparr>)
   \<and> setFavorite noFlag db3 bob ''a1'' ''i1'' JUndefined
       = ((200, FavoriteSet ''Image favorite status updated'' (Some True)),
          db3\<lparr>images := [pic\<lparr>isFavorite := Some True\<rparr>, pic2]\<rparr>)
   \<and> setFavorite noFlag (snd (setFavorite noFlag db3 bob ''a1'' ''i1'' JUndefined))
         bob ''a1'' ''i1'' JUndefined
       = ((200, FavoriteSet ''Image favorite status updated'' (Some False)), db2)
   \<and> db2 \<noteq> db3"
proof -
  have "setFavorite noFlag db2 bob ''a1'' ''i1'' JNull
     = ((200, FavoriteSet ''Image favorite status updated'' None), db3)"
    by code_simp
  moreover have "findOne (\<lambda>x. imageId x = ''i1'' \<and> imgAlbumId x = ''a1'') (images db3)
       = Some (pic\<lparr>isFavorite := None\<rparr>)"
    by code_simp
  moreover have "setFavorite noFlag db3 bob ''a1'' ''i1'' JUndefined
       = ((200, FavoriteSet ''Image favorite status updated'' (Some True)),
          db3\<lparr>images := [pic\<lparr>isFavorite := Some True\<rparr>, pic2]\<rparr>)"
    by code_simp
  moreover have "setFavorite noFlag (snd (setFavorite noFlag db3 bob ''a1'' ''i1'' JUndefined))
         bob ''a1'' ''i1'' JUndefined
       = ((200, FavoriteSet ''Image favorite status updated'' (Some False)), db2)"
    by code_simp
  moreover have "db2 \<noteq> db3"
    by (simp add: db2_def db3_def pic_def)
  ultimately show ?thesis by (intro conjI)
qed

text \<open>
  C5, as the code has it. For an album that exists, a principal with access and an
  image found in the album: with a Boolean given, or \<^verbatim>\<open>null\<close>, the handler answers
  200 with that value and the stored image is the old one with \<open>isFavorite\<close> set to
  it; with no value the stored flag is the negation of the current one, \<^verbatim>\<open>null\<close>
  counting as \<^verbatim>\<open>false\<close>. Two requests with no value give back the database they
  started from when the flag was \<^verbatim>\<open>true\<close> or \<^verbatim>\<open>false\<close>; from \<^verbatim>\<open>null\<close> they
  leave \<^verbatim>\<open>false\<close>. A given value that the schema's Boolean cast refuses is answered
  500 and nothing changes. Whatever the value, the albums are untouched and the
  image collection differs from the old one at the position of that image only,
  where no field but \<open>isFavorite\<close> changes.
\<close>

theorem setFavorite_sets_or_toggles:
  "findOne (\<lambda>x. albumId x = aid) (albums st) = Some a \<and> hasAccess a p
   \<and> findOne (\<lambda>x. imageId x = iid \<and> imgAlbumId x = aid) (images st) = Some i \<longrightarrow>
     (\<forall>b. fst (setFavorite B st p aid iid (JBool b))
             = (200, FavoriteSet ''Image favorite status updated'' (Some b))
         \<and> findOne (\<lambda>x. imageId x = iid \<and> imgAlbumId x = aid)
              (images (snd (setFavorite B st p aid iid (JBool b))))
             = Some (i\<lparr>isFavorite := Some b\<rparr>))
   \<and> fst (setFavorite B st p aid iid JNull)
        = (200, FavoriteSet ''Image favorite status updated'' None)
   \<and> findOne (\<lambda>x. imageId x = iid \<and> imgAlbumId x = aid)
        (images (snd (setFavorite B st p aid iid JNull))) = Some (i\<lparr>isFavorite := None\<rparr>)
   \<and> fst (setFavorite B st p aid iid JUndefined)
        = (200, FavoriteSet ''Image favorite status updated'' (Some (isFavorite i \<noteq> Some True)))
   \<and> findOne (\<lambda>x. imageId x = iid \<and> imgAlbumId x = aid)
        (images (snd (setFavorite B st p aid iid JUndefined)))
        = Some (i\<lparr>isFavorite := Some (isFavorite i \<noteq> Some True)\<rparr>)
   \<and> (isFavorite i \<noteq> None \<longrightarrow>
        snd (setFavorite B (snd (setFavorite B st p aid iid JUndefined)) p aid iid JUndefined)
          = st)
   \<and> (isFavorite i = None \<longrightarrow>
        findOne (\<lambda>x. imageId x = iid \<and> imgAlbumId x = aid)
          (images (snd (setFavorite B (snd (setFavorite B st p aid iid JUndefined))
                     p aid iid JUndefined)))
          = Some (i\<lparr>isFavorite := Some False\<rparr>))
   \<and> (\<forall>fav. fav \<noteq> JUndefined \<and> storedFlag B fav = None \<longrightarrow>
         setFavorite B st p aid iid fav
           = ((500, Error ''Failed to update favorite status''), st))
   \<and> (\<forall>fav. albums (snd (setFavorite B st p aid iid fav)) = albums st
         \<and> (\<exists>k v. k < length (images st) \<and> images st ! k = i
               \<and> images (snd (setFavorite B st p aid iid fav))
                   = (images st)[k := i\<lparr>isFavorite := v\<rparr>]))"
proof (intro impI)
  let ?q = "\<lambda>x. imageId x = iid \<and> imgAlbumId x = aid"
  assume pre: "findOne (\<lambda>x. albumId x = aid) (albums st) = Some a \<and> hasAccess a p
   \<and> findOne ?q (images st) = Some i"
  then have a: "findOne (\<lambda>x. albumId x = aid) (albums st) = Some a"
    and h: "hasAccess a p" and i: "findOne ?q (images st) = Some i"
    by simp_all
  note r = setFavorite_result [OF a h i]
  from findOne_SomeD [OF i] have q: "?q (i\<lparr>isFavorite := v\<rparr>)" for v by simp
  have tf: "(\<not> truthyFlag f) = (f \<noteq> Some True)" for f
    by (cases f) auto
  have set_to: "fst (setFavorite B st p aid iid fav)
          = (200, FavoriteSet ''Image favorite status updated'' v)
      \<and> findOne ?q (images (snd (setFavorite B st p aid iid fav))) = Some (i\<lparr>isFavorite := v\<rparr>)"
    if "(if fav \<noteq> JUndefined then storedFlag B fav
         else Some (Some (\<not> truthyFlag (isFavorite i)))) = Some v" for fav v
    using r [OF that] findOne_saveLoaded [OF i q, of v] by simp
  have c1: "\<forall>b. fst (setFavorite B st p aid iid (JBool b))
             = (200, FavoriteSet ''Image favorite status updated'' (Some b))
         \<and> findOne ?q (images (snd (setFavorite B st p aid iid (JBool b))))
             = Some (i\<lparr>isFavorite := Some b\<rparr>)"
    using set_to [of "JBool _" "Some _"] by simp
  have c2: "fst (setFavorite B st p aid iid JNull)
        = (200, FavoriteSet ''Image favorite status updated'' None)
      \<and> findOne ?q (images (snd (setFavorite B st p aid iid JNull)))
        = Some (i\<lparr>isFavorite := None\<rparr>)"
    using set_to [of JNull None] by simp
  have c3: "fst (setFavorite B st p aid iid JUndefined)
        = (200, FavoriteSet ''Image favorite status updated'' (Some (isFavorite i \<noteq> Some True)))
      \<and> findOne ?q (images (snd (setFavorite B st p aid iid JUndefined)))
        = Some (i\<lparr>isFavorite := Some (isFavorite i \<noteq> Some True)\<rparr>)"
    using set_to [of JUndefined "Some (isFavorite i \<noteq> Some True)"] by (simp add: tf)
  note tw = setFavorite_toggle_twice [OF a h i, of B]
  have c4: "snd (setFavorite B (snd (setFavorite B st p aid iid JUndefined)) p aid iid JUndefined)
          = st" if "isFavorite i \<noteq> None"
  proof -
    from that have "Some (truthyFlag (isFavorite i)) = isFavorite i"
      by (cases "isFavorite i") simp_all
    then have "i\<lparr>isFavorite := Some (truthyFlag (isFavorite i))\<rparr> = i"
      by simp
    with tw saveLoaded_same [OF i] show ?thesis by simp
  qed
  have c5: "findOne ?q
          (images (snd (setFavorite B (snd (setFavorite B st p aid iid JUndefined))
                     p aid iid JUndefined)))
          = Some (i\<lparr>isFavorite := Some False\<rparr>)" if "isFavorite i = None"
    using tw that findOne_saveLoaded [OF i q, of "Some False"] by simp
  have c6: "\<forall>fav. fav \<noteq> JUndefined \<and> storedFlag B fav = None \<longrightarrow>
         setFavorite B st p aid iid fav
           = ((500, Error ''Failed to update favorite status''), st)"
    using setFavorite_rejected [OF a h i] by blast
  have c7: "albums (snd (setFavorite B st p aid iid fav)) = albums st
         \<and> (\<exists>k v. k < length (images st) \<and> images st ! k = i
               \<and> images (snd (setFavorite B st p aid iid fav))
                   = (images st)[k := i\<lparr>isFavorite := v\<rparr>])" for fav
  proof (cases "if fav \<noteq> JUndefined then storedFlag B fav
                else Some (Some (\<not> truthyFlag (isFavorite i)))")
    case None
    then have e: "setFavorite B st p aid iid fav
           = ((500, Error ''Failed to update favorite status''), st)"
      using setFavorite_rejected [OF a h i, of fav B] by (simp split: if_splits)
    from saveLoaded_update [OF i, of i] obtain k where
      k: "k < length (images st)" "images st ! k = i"
      by blast
    have "images (snd (setFavorite B st p aid iid fav)) = images st"
      using e by simp
    also have "\<dots> = (images st)[k := i\<lparr>isFavorite := isFavorite i\<rparr>]"
      using k list_update_id [of "images st" k] by simp
    finally have "images (snd (setFavorite B st p aid iid fav))
        = (images st)[k := i\<lparr>isFavorite := isFavorite i\<rparr>]" .
    with k have "\<exists>k v. k < length (images st) \<and> images st ! k = i
               \<and> images (snd (setFavorite B st p aid iid fav))
                   = (images st)[k := i\<lparr>isFavorite := v\<rparr>]"
      by blast
    moreover have "albums (snd (setFavorite B st p aid iid fav)) = albums st"
      using e by simp
    ultimately show ?thesis by blast
  next
    case (Some v)
    from saveLoaded_update [OF i, of "i\<lparr>isFavorite := v\<rparr>"] obtain k where
      "k < length (images st)" "images st ! k = i"
      "saveLoaded ?q (i\<lparr>isFavorite := v\<rparr>) (images st) = (images st)[k := i\<lparr>isFavorite := v\<rparr>]"
      by blast
    with r [OF Some] show ?thesis by auto
  qed
  from c1 c2 c3 c4 c5 c6 c7
  show "(\<forall>b. fst (setFavorite B st p aid iid (JBool b))
             = (200, FavoriteSet ''Image favorite status updated'' (Some b))
         \<and> findOne ?q (images (snd (setFavorite B st p aid iid (JBool b))))
             = Some (i\<lparr>isFavorite := Some b\<rparr>))
   \<and> fst (setFavorite B st p aid iid JNull)
        = (200, FavoriteSet ''Image favorite status updated'' None)
   \<and> findOne ?q (images (snd (setFavorite B st p aid iid JNull))) = Some (i\<lparr>isFavorite := None\<rparr>)
   \<and> fst (setFavorite B st p aid iid JUndefined)
        = (200, FavoriteSet ''Image favorite status updated'' (Some (isFavorite i \<noteq> Some True)))
   \<and> findOne ?q (images (snd (setFavorite B st p aid iid JUndefined)))
        = Some (i\<lparr>isFavorite := Some (isFavorite i \<noteq> Some True)\<rparr>)
   \<and> (isFavorite i \<noteq> None \<longrightarrow>
        snd (setFavorite B (snd (setFavorite B st p aid iid JUndefined)) p aid iid JUndefined)
          = st)
   \<and> (isFavorite i = None \<longrightarrow>
        findOne ?q
          (images (snd (setFavorite B (snd (setFavorite B st p aid iid JUndefined))
                     p aid iid JUndefined)))
          = Some (i\<lparr>isFavorite := Some False\<rparr>))
   \<and> (\<forall>fav. fav \<noteq> JUndefined \<and> storedFlag B fav = None \<longrightarrow>
         setFavorite B st p aid iid fav
           = ((500, Error ''Failed to update favorite status''), st))
   \<and> (\<forall>fav. albums (snd (setFavorite B st p aid iid fav)) = albums st
         \<and> (\<exists>k v. k < length (images st) \<and> images st ! k = i
               \<and> images (snd (setFavorite B st p aid iid fav))
                   = (images st)[k := i\<lparr>isFavorite := v\<rparr>]))"
    by blast
qed

theorem setFavorite_sets_or_toggles_witness:
  "findOne (\<lambda>x. albumId x = ''a1'') (albums db2) = Some trip \<and> hasAccess trip bob
   \<and> findOne (\<lambda>x. imageId x = ''i1'' \<and> imgAlbumId x = ''a1'') (images db2) = Some pic
   \<and> setFavorite noFlag db2 bob ''a1'' ''i1'' (JBool True)
        = ((200, FavoriteSet ''Image favorite status updated'' (Some True)),
           db2\<lparr>images := [pic\<lparr>isFavorite := Some True\<rparr>, pic2]\<rparr>)
   \<and> findOne (\<lambda>x. imageId x = ''i1'' \<and> imgAlbumId x = ''a1'')
        (images (snd (setFavorite noFlag db2 bob ''a1'' ''i1'' (JBool True))))
        = Some (pic\<lparr>isFavorite := Some True\<rparr>)
   \<and> isFavorite pic = Some False
   \<and> fst (setFavorite noFlag db2 bob ''a1'' ''i1'' JUndefined)
        = (200, FavoriteSet ''Image favorite status updated'' (Some True))
   \<and> snd (setFavorite noFlag (snd (setFavorite noFlag db2 bob ''a1'' ''i1'' JUndefined))
             bob ''a1'' ''i1'' JUndefined) = db2
   \<and> findOne (\<lambda>x. albumId x = ''a1'') (albums db3) = Some trip
   \<and> findOne (\<lambda>x. imageId x = ''i1'' \<and> imgAlbumId x = ''a1'') (images db3)
        = Some (pic\<lparr>isFavorite := None\<rparr>)
   \<and> findOne (\<lambda>x. imageId x = ''i1'' \<and> imgAlbumId x = ''a1'')
        (images (snd (setFavorite noFlag (snd (setFavorite noFlag db3 bob ''a1'' ''i1'' JUndefined))
                   bob ''a1'' ''i1'' JUndefined)))
        = Some (pic\<lparr>isFavorite := Some False\<rparr>)
   \<and> storedFlag noFlag (JStr ''abc'') = None
   \<and> setFavorite noFlag db2 bob ''a1'' ''i1'' (JStr ''abc'')
        = ((500, Error ''Failed to update favorite status''), db2)"
proof -
  let ?q = "\<lambda>x. imageId x = ''i1'' \<and> imgAlbumId x = ''a1''"
  have f: "findOne (\<lambda>x. albumId x = ''a1'') (albums db2) = Some trip"
    "findOne ?q (images db2) = Some pic"
    by code_simp+
  have g: "findOne (\<lambda>x. albumId x = ''a1'') (albums db3) = Some trip"
    "findOne ?q (images db3) = Some (pic\<lparr>isFavorite := None\<rparr>)"
    by code_simp+
  have h: "hasAccess trip bob"
    by (simp add: hasAccess_def trip_def bob_def)
  have n: "isFavorite pic = Some False"
    by (simp add: pic_def)
  have e: "setFavorite noFlag db2 bob ''a1'' ''i1'' (JBool True)
        = ((200, FavoriteSet ''Image favorite status updated'' (Some True)),
           db2\<lparr>images := [pic\<lparr>isFavorite := Some True\<rparr>, pic2]\<rparr>)"
    by code_simp
  have x: "storedFlag noFlag (JStr ''abc'') = None" "JStr ''abc'' \<noteq> JUndefined"
    by (simp_all add: noFlag_def)
  note inst = setFavorite_sets_or_toggles [where B = noFlag and st = db2 and aid = "''a1''"
      and iid = "''i1''" and a = trip and p = bob and i = pic, rule_format,
      OF conjI [OF f(1) conjI [OF h f(2)]]]
  note inst3 = setFavorite_sets_or_toggles [where B = noFlag and st = db3 and aid = "''a1''"
      and iid = "''i1''" and a = trip and p = bob and i = "pic\<lparr>isFavorite := None\<rparr>",
      rule_format, OF conjI [OF g(1) conjI [OF h g(2)]]]
  from inst have s: "findOne ?q (images (snd (setFavorite noFlag db2 bob ''a1'' ''i1'' (JBool True))))
        = Some (pic\<lparr>isFavorite := Some True\<rparr>)"
    by blast
  from inst have "fst (setFavorite noFlag db2 bob ''a1'' ''i1'' JUndefined)
        = (200, FavoriteSet ''Image favorite status updated'' (Some (isFavorite pic \<noteq> Some True)))"
    by blast
  then have t: "fst (setFavorite noFlag db2 bob ''a1'' ''i1'' JUndefined)
        = (200, FavoriteSet ''Image favorite status updated'' (Some True))"
    unfolding n by simp
  have "isFavorite pic \<noteq> None"
    unfolding n by simp
  with inst have b: "snd (setFavorite noFlag (snd (setFavorite noFlag db2 bob ''a1'' ''i1'' JUndefined))
        bob ''a1'' ''i1'' JUndefined) = db2"
    by blast
  have "isFavorite (pic\<lparr>isFavorite := None\<rparr>) = None"
    by simp
  with inst3 have "findOne ?q
        (images (snd (setFavorite noFlag (snd (setFavorite noFlag db3 bob ''a1'' ''i1'' JUndefined))
                   bob ''a1'' ''i1'' JUndefined)))
        = Some (pic\<lparr>isFavorite := None\<rparr>\<lparr>isFavorite := Some False\<rparr>)"
    by blast
  then have d: "findOne ?q
        (images (snd (setFavorite noFlag (snd (setFavorite noFlag db3 bob ''a1'' ''i1'' JUndefined))
                   bob ''a1'' ''i1'' JUndefined)))
        = Some (pic\<lparr>isFavorite := Some False\<rparr>)"
    by simp
  from inst x have r: "setFavorite noFlag db2 bob ''a1'' ''i1'' (JStr ''abc'')
        = ((500, Error ''Failed to update favorite status''), db2)"
    by blast
  from f(1) h f(2) e s n t b g d x(1) r show ?thesis by (intro conjI)
qed

subsection \<open>Comments\<close>

lemma addComment_blank:
  "\<not> truthy cmt \<or> (\<exists>t. cmt = JStr t \<and> trim t = []) \<Longrightarrow>
     addComment st p aid iid cmt now = ((400, Error ''Comment cannot be empty''), st)"
  by (auto simp: addComment_def)

lemma addComment_result:
  assumes "findOne (\<lambda>x. albumId x = aid) (albums st) = Some a"
    and "hasAccess a p"
    and "findOne (\<lambda>x. imageId x = iid \<and> imgAlbumId x = aid) (images st) = Some i"
    and "trim t \<noteq> []"
  shows "addComment st p aid iid (JStr t) now =
           ((200, CommentAdded ''Comment added successfully''
                    (comments i @ [\<lparr>cUserId = userId p, cUserEmail = email p,
                                    cComment = trim t, cCreatedAt = now\<rparr>])),
            st\<lparr>images := saveLoaded (\<lambda>x. imageId x = iid \<and> imgAlbumId x = aid)
                   (i\<lparr>comments := comments i @ [\<lparr>cUserId = userId p, cUserEmail = email p,
                                    cComment = trim t, cCreatedAt = now\<rparr>]\<rparr>)
                   (images st)\<rparr>)"
proof -
  from assms(4) have "t \<noteq> []" by (auto simp: trim_def)
  with assms show ?thesis by (simp add: addComment_def Let_def)
qed

text \<open>
  C6. For an album that exists, a principal with access and an image found in the
  album, a comment text gets the validation error (400, "Comment cannot be empty")
  exactly when it is empty after trimming, and so does a request with no comment.
  Otherwise the answer is 200 with the new comment list, which is the old list
  followed by one comment that carries the principal's \<open>userId\<close> and email, the trimmed
  text and the time of the request; the stored image is the old one with that list;
  the albums are untouched and no other position of the image collection changes.
\<close>

theorem addComment_appends_one:
  "findOne (\<lambda>x. albumId x = aid) (albums st) = Some a \<and> hasAccess a p
   \<and> findOne (\<lambda>x. imageId x = iid \<and> imgAlbumId x = aid) (images st) = Some i \<longrightarrow>
     (addComment st p aid iid (JStr t) now = ((400, Error ''Comment cannot be empty''), st)
        \<longleftrightarrow> trim t = [])
   \<and> (fst (fst (addComment st p aid iid (JStr t) now)) = 400 \<longleftrightarrow> trim t = [])
   \<and> addComment st p aid iid JUndefined now = ((400, Error ''Comment cannot be empty''), st)
   \<and> (trim t \<noteq> [] \<longrightarrow>
        (\<exists>cs st'. addComment st p aid iid (JStr t) now
                    = ((200, CommentAdded ''Comment added successfully'' cs), st')
           \<and> cs = comments i @ [\<lparr>cUserId = userId p, cUserEmail = email p,
                                  cComment = trim t, cCreatedAt = now\<rparr>]
           \<and> length cs = length (comments i) + 1
           \<and> take (length (comments i)) cs = comments i
           \<and> findOne (\<lambda>x. imageId x = iid \<and> imgAlbumId x = aid) (images st')
                = Some (i\<lparr>comments := cs\<rparr>)
           \<and> albums st' = albums st
           \<and> (\<exists>k. k < length (images st) \<and> images st ! k = i
                 \<and> images st' = (images st)[k := i\<lparr>comments := cs\<rparr>])))"
proof (intro impI)
  let ?q = "\<lambda>x. imageId x = iid \<and> imgAlbumId x = aid"
  let ?c = "\<lparr>cUserId = userId p, cUserEmail = email p, cComment = trim t, cCreatedAt = now\<rparr>"
  let ?cs = "comments i @ [?c]"
  let ?st' = "st\<lparr>images := saveLoaded ?q (i\<lparr>comments := ?cs\<rparr>) (images st)\<rparr>"
  assume pre: "findOne (\<lambda>x. albumId x = aid) (albums st) = Some a \<and> hasAccess a p
   \<and> findOne ?q (images st) = Some i"
  then have a: "findOne (\<lambda>x. albumId x = aid) (albums st) = Some a"
    and h: "hasAccess a p" and i: "findOne ?q (images st) = Some i"
    by simp_all
  have blank: "addComment st p aid iid (JStr t) now = ((400, Error ''Comment cannot be empty''), st)"
    if "trim t = []"
    using that addComment_blank [of "JStr t" st p aid iid now] by blast
  have undef: "addComment st p aid iid JUndefined now = ((400, Error ''Comment cannot be empty''), st)"
    using addComment_blank [of JUndefined st p aid iid now] by simp
  have good: "addComment st p aid iid (JStr t) now
        = ((200, CommentAdded ''Comment added successfully'' ?cs), ?st')"
    if "trim t \<noteq> []"
    using addComment_result [OF a h i that, of now] .
  have c1: "addComment st p aid iid (JStr t) now = ((400, Error ''Comment cannot be empty''), st)
        \<longleftrightarrow> trim t = []"
    using blank good by (cases "trim t = []") simp_all
  have c2: "fst (fst (addComment st p aid iid (JStr t) now)) = 400 \<longleftrightarrow> trim t = []"
    using blank good by (cases "trim t = []") simp_all
  have c4: "\<exists>cs st'. addComment st p aid iid (JStr t) now
                    = ((200, CommentAdded ''Comment added successfully'' cs), st')
           \<and> cs = ?cs
           \<and> length cs = length (comments i) + 1
           \<and> take (length (comments i)) cs = comments i
           \<and> findOne ?q (images st') = Some (i\<lparr>comments := cs\<rparr>)
           \<and> albums st' = albums st
           \<and> (\<exists>k. k < length (images st) \<and> images st ! k = i
                 \<and> images st' = (images st)[k := i\<lparr>comments := cs\<rparr>])"
    if ne: "trim t \<noteq> []"
  proof -
    from findOne_SomeD [OF i] have "?q (i\<lparr>comments := ?cs\<rparr>)" by simp
    from findOne_saveLoaded [OF i this]
    have stored: "findOne ?q (images ?st') = Some (i\<lparr>comments := ?cs\<rparr>)" by simp
    from saveLoaded_update [OF i, of "i\<lparr>comments := ?cs\<rparr>"]
    have pos: "\<exists>k. k < length (images st) \<and> images st ! k = i
                 \<and> images ?st' = (images st)[k := i\<lparr>comments := ?cs\<rparr>]"
      by auto
    have "length ?cs = length (comments i) + 1" "take (length (comments i)) ?cs = comments i"
      "albums ?st' = albums st"
      by simp_all
    with good [OF ne] stored pos show ?thesis by blast
  qed
  from c1 c2 undef c4
  show "(addComment st p aid iid (JStr t) now = ((400, Error ''Comment cannot be empty''), st)
        \<longleftrightarrow> trim t = [])
   \<and> (fst (fst (addComment st p aid iid (JStr t) now)) = 400 \<longleftrightarrow> trim t = [])
   \<and> addComment st p aid iid JUndefined now = ((400, Error ''Comment cannot be empty''), st)
   \<and> (trim t \<noteq> [] \<longrightarrow>
        (\<exists>cs st'. addComment st p aid iid (JStr t) now
                    = ((200, CommentAdded ''Comment added successfully'' cs), st')
           \<and> cs = ?cs
           \<and> length cs = length (comments i) + 1
           \<and> take (length (comments i)) cs = comments i
           \<and> findOne ?q (images st') = Some (i\<lparr>comments := cs\<rparr>)
           \<and> albums st' = albums st
           \<and> (\<exists>k. k < length (images st) \<and> images st ! k = i
                 \<and> images st' = (images st)[k := i\<lparr>comments := cs\<rparr>])))"
    by blast
qed

theorem addComment_appends_one_witness:
  "findOne (\<lambda>x. albumId x = ''a1'') (albums db2) = Some trip \<and> hasAccess trip bob
   \<and> findOne (\<lambda>x. imageId x = ''i1'' \<and> imgAlbumId x = ''a1'') (images db2) = Some pic
   \<and> trim '' nice '' = ''nice''
   \<and> addComment db2 bob ''a1'' ''i1'' (JStr '' nice '') 9
        = ((200, CommentAdded ''Comment added successfully''
                  [\<lparr>cUserId = ''u2'', cUserEmail = ''bob@x.io'', cComment = ''nice'',
                    cCreatedAt = 9\<rparr>]),
           db2\<lparr>images := [pic\<lparr>comments := [\<lparr>cUserId = ''u2'', cUserEmail = ''bob@x.io'',
                                               cComment = ''nice'', cCreatedAt = 9\<rparr>]\<rparr>, pic2]\<rparr>)
   \<and> fst (fst (addComment db2 bob ''a1'' ''i1'' (JStr '' nice '') 9)) \<noteq> 400
   \<and> trim ''  '' = []
   \<and> addComment db2 bob ''a1'' ''i1'' (JStr ''  '') 9
        = ((400, Error ''Comment cannot be empty''), db2)"
proof -
  have f: "findOne (\<lambda>x. albumId x = ''a1'') (albums db2) = Some trip"
    "findOne (\<lambda>x. imageId x = ''i1'' \<and> imgAlbumId x = ''a1'') (images db2) = Some pic"
    by code_simp+
  have h: "hasAccess trip bob"
    by (simp add: hasAccess_def trip_def bob_def)
  have t: "trim '' nice '' = ''nice''" "trim ''  '' = []"
    by code_simp+
  have e: "addComment db2 bob ''a1'' ''i1'' (JStr '' nice '') 9
        = ((200, CommentAdded ''Comment added successfully''
                  [\<lparr>cUserId = ''u2'', cUserEmail = ''bob@x.io'', cComment = ''nice'',
                    cCreatedAt = 9\<rparr>]),
           db2\<lparr>images := [pic\<lparr>comments := [\<lparr>cUserId = ''u2'', cUserEmail = ''bob@x.io'',
                                               cComment = ''nice'', cCreatedAt = 9\<rparr>]\<rparr>, pic2]\<rparr>)"
    by code_simp
  note inst = addComment_appends_one [where st = db2 and aid = "''a1''" and iid = "''i1''"
      and a = trip and p = bob and i = pic and now = 9, rule_format,
      OF conjI [OF f(1) conjI [OF h f(2)]]]
  from inst [where t = "'' nice ''"] t(1)
  have n: "fst (fst (addComment db2 bob ''a1'' ''i1'' (JStr '' nice '') 9)) \<noteq> 400"
    by simp
  from inst [where t = "''  ''"] t(2)
  have b: "addComment db2 bob ''a1'' ''i1'' (JStr ''  '') 9
        = ((400, Error ''Comment cannot be empty''), db2)"
    by blast
  from f(1) h f(2) t(1) e n t(2) b show ?thesis by (intro conjI)
qed

subsection \<open>Credential failures\<close>

text \<open>
  C7 does not hold as it is stated: a request with no token and a request with a
  token that \<^verbatim>\<open>jwt.verify\<close> refuses are both answered 401, but with different
  bodies, behind the middleware alone and behind a route under \<^verbatim>\<open>/albums\<close>.
\<close>

theorem verifyJWT_missing_differs_from_invalid:
  "verifyJWT rejectAll \<lparr>cookie_jwt_token = None, authorization = None\<rparr>
     = Inl (401, Error ''No token provided'')
   \<and> verifyJWT rejectAll \<lparr>cookie_jwt_token = Some ''bad'', authorization = None\<rparr>
     = Inl (401, Error ''Invalid or expired token'')
   \<and> verifyJWT rejectAll \<lparr>cookie_jwt_token = None, authorization = None\<rparr>
     \<noteq> verifyJWT rejectAll \<lparr>cookie_jwt_token = Some ''bad'', authorization = None\<rparr>
   \<and> albumsRoute rejectAll \<lparr>cookie_jwt_token = None, authorization = None\<rparr>
        (\<lambda>u. getAlbum db1 u ''a1'')
     \<noteq> albumsRoute rejectAll \<lparr>cookie_jwt_token = Some ''bad'', authorization = None\<rparr>
        (\<lambda>u. getAlbum db1 u ''a1'')"
  by (simp add: verifyJWT_def albumsRoute_def requestToken_def rejectAll_def)

text \<open>
  C7, as the code has it. Every failure of the credential check is answered with
  status 401. A token that \<^verbatim>\<open>jwt.verify\<close> refuses gets the body
  "Invalid or expired token" whatever the reason of the refusal (malformed, bad
  signature, expired), so these cases are not told apart; a request with no token
  gets the body "No token provided". A route under \<^verbatim>\<open>/albums\<close> answers a failed
  check with that same response and otherwise runs its handler: the router's own
  check never fails after the application's.
\<close>

theorem verifyJWT_failure_is_401:
  "(\<forall>r. verifyJWT jv req = Inl r \<longrightarrow> fst r = 401)
   \<and> (\<not> truthyStr (requestToken req) \<longrightarrow>
        verifyJWT jv req = Inl (401, Error ''No token provided''))
   \<and> (\<forall>e. truthyStr (requestToken req) \<and> jv (strOf (requestToken req)) = Inl e \<longrightarrow>
        verifyJWT jv req = Inl (401, Error ''Invalid or expired token''))
   \<and> (\<forall>u. truthyStr (requestToken req) \<and> jv (strOf (requestToken req)) = Inr u \<longrightarrow>
        verifyJWT jv req = Inr u)
   \<and> (\<forall>r. verifyJWT jv req = Inl r \<longrightarrow> albumsRoute jv req handler = r)
   \<and> (\<forall>u. verifyJWT jv req = Inr u \<longrightarrow> albumsRoute jv req handler = handler u)"
  by (auto simp: verifyJWT_def albumsRoute_def routerVerifyJWT_def Let_def split: sum.splits)

theorem verifyJWT_failure_is_401_witness:
  "requestToken \<lparr>cookie_jwt_token = None, authorization = Some ''Bearer old''\<rparr> = Some ''old''
   \<and> rejectAll ''old'' = Inl TokenExpiredError
   \<and> verifyJWT rejectAll \<lparr>cookie_jwt_token = None, authorization = Some ''Bearer old''\<rparr>
        = Inl (401, Error ''Invalid or expired token'')
   \<and> requestToken \<lparr>cookie_jwt_token = Some ''bad'', authorization = None\<rparr> = Some ''bad''
   \<and> rejectAll ''bad'' = Inl JsonWebTokenError
   \<and> verifyJWT rejectAll \<lparr>cookie_jwt_token = Some ''bad'', authorization = None\<rparr>
        = Inl (401, Error ''Invalid or expired token'')
   \<and> requestToken \<lparr>cookie_jwt_token = None, authorization = Some ''Bearer''\<rparr> = None
   \<and> verifyJWT rejectAll \<lparr>cookie_jwt_token = None, authorization = Some ''Bearer''\<rparr>
        = Inl (401, Error ''No token provided'')
   \<and> albumsRoute rejectAll \<lparr>cookie_jwt_token = Some ''bad'', authorization = None\<rparr>
        (\<lambda>u. getAlbum db1 u ''a1'') = (401, Error ''Invalid or expired token'')
   \<and> verifyJWT (\<lambda>t. Inr bob) \<lparr>cookie_jwt_token = Some ''tok'', authorization = None\<rparr> = Inr bob
   \<and> albumsRoute (\<lambda>t. Inr bob) \<lparr>cookie_jwt_token = Some ''tok'', authorization = None\<rparr>
        (\<lambda>u. getAlbum db1 u ''a1'') = getAlbum db1 bob ''a1''"
proof -
  let ?old = "\<lparr>cookie_jwt_token = None, authorization = Some ''Bearer old''\<rparr>"
  let ?bad = "\<lparr>cookie_jwt_token = Some ''bad'', authorization = None\<rparr>"
  let ?none = "\<lparr>cookie_jwt_token = None, authorization = Some ''Bearer''\<rparr>"
  let ?tok = "\<lparr>cookie_jwt_token = Some ''tok'', authorization = None\<rparr>"
  let ?h = "\<lambda>u. getAlbum db1 u ''a1''"
  have t: "requestToken ?old = Some ''old''" "requestToken ?bad = Some ''bad''"
    "requestToken ?none = None" "requestToken ?tok = Some ''tok''"
    by (simp_all add: requestToken_def)
  have j: "rejectAll ''old'' = Inl TokenExpiredError" "rejectAll ''bad'' = Inl JsonWebTokenError"
    by (simp_all add: rejectAll_def)
  note o = verifyJWT_failure_is_401 [where jv = rejectAll and req = ?old]
  note b = verifyJWT_failure_is_401 [where jv = rejectAll and req = ?bad and handler = ?h]
  note n = verifyJWT_failure_is_401 [where jv = rejectAll and req = ?none]
  note k = verifyJWT_failure_is_401 [where jv = "\<lambda>t. Inr bob" and req = ?tok and handler = ?h]
  have po: "truthyStr (requestToken ?old)
      \<and> rejectAll (strOf (requestToken ?old)) = Inl TokenExpiredError"
    unfolding t(1) using j(1) by simp
  have pb: "truthyStr (requestToken ?bad)
      \<and> rejectAll (strOf (requestToken ?bad)) = Inl JsonWebTokenError"
    unfolding t(2) using j(2) by simp
  have pn: "\<not> truthyStr (requestToken ?none)"
    unfolding t(3) by simp
  have pk: "truthyStr (requestToken ?tok) \<and> (\<lambda>t. Inr bob) (strOf (requestToken ?tok)) = Inr bob"
    unfolding t(4) by simp
  note vo = o [THEN conjunct2, THEN conjunct2, THEN conjunct1, rule_format, OF po]
  note vb = b [THEN conjunct2, THEN conjunct2, THEN conjunct1, rule_format, OF pb]
  note vn = n [THEN conjunct2, THEN conjunct1, rule_format, OF pn]
  note rb = b [THEN conjunct2, THEN conjunct2, THEN conjunct2, THEN conjunct2, THEN conjunct1,
      rule_format, OF vb]
  note vk = k [THEN conjunct2, THEN conjunct2, THEN conjunct2, THEN conjunct1, rule_format, OF pk]
  note rk = k [THEN conjunct2, THEN conjunct2, THEN conjunct2, THEN conjunct2, THEN conjunct2,
      rule_format, OF vk]
  from t(1) j(1) vo t(2) j(2) vb t(3) vn rb vk rk show ?thesis by (intro conjI)
qed

subsection \<open>Tags of an uploaded image\<close>

lemma parseTags_cases:
  "parseTags P (JArr ts) = JArr ts"
  "s \<noteq> [] \<Longrightarrow> P s = Some v \<Longrightarrow> parseTags P (JStr s) = v"
  "P s = None \<Longrightarrow> parseTags P (JStr s) = JArr []"
  "parseTags P JUndefined = JArr []"
  by (simp_all add: parseTags_def)

lemma uploadImage_created:
  assumes "findOne (\<lambda>x. albumId x = aid) (albums st) = Some a" and "hasAccess a p"
    and "uuid \<noteq> []" "aid \<noteq> []" "originalname f \<noteq> []" "secure_url r \<noteq> []"
      "public_id r \<noteq> []" "userId p \<noteq> []"
    and "\<not> list_ex (\<lambda>j. imageId j = uuid) (images st)"
    and "storedTags C (parseTags P tgs) = Some ts"
  shows "uploadImage P C st p aid (Some f) tgs pers fav (Inr r) uuid now =
           ((201, ImageUploaded ''Image uploaded successfully'' uuid (originalname f)
                    (secure_url r) ts (orElse pers []) (Some (fav = JStr ''true'' \<or> fav = JBool True))
                    (bytes r) now),
            st\<lparr>images := images st @
                 [\<lparr>imageId = uuid, imgAlbumId = aid, imgName = originalname f,
                   filename = originalname f, cloudinaryUrl = secure_url r,
                   cloudinaryPublicId = public_id r, tags = ts, person = orElse pers [],
                   isFavorite = (Some (fav = JStr ''true'' \<or> fav = JBool True)), comments = [],
                   sizeBytes = bytes r, uploadedAt = now, uploadedBy = userId p\<rparr>]\<rparr>)"
  using assms by (simp add: uploadImage_def Image_saveNew_def Let_def)

lemma uploadImage_malformed_as_absent:
  assumes "P s = None"
  shows "uploadImage P C st p aid file (JStr s) pers fav res uuid now
       = uploadImage P C st p aid file JUndefined pers fav res uuid now"
proof -
  from assms have "parseTags P (JStr s) = parseTags P JUndefined"
    by (simp add: parseTags_def)
  then show ?thesis
    by (simp only: uploadImage_def)
qed

lemma uploadImage_not_400:
  "file \<noteq> None \<Longrightarrow> fst (fst (uploadImage P C st p aid file tgs pers fav res uuid now)) \<noteq> 400"
  by (auto simp: uploadImage_def Let_def split: option.splits sum.splits)

text \<open>
  C8. Take an upload that carries a file, to an album that exists, by a principal
  with access, which the media host accepts and whose new document the store accepts
  (a fresh \<open>imageId\<close>, no required string empty). If the \<open>tags\<close> field is a list, the
  image is created (201) with that list; if it is a non-empty string that
  \<^verbatim>\<open>JSON.parse\<close> decodes to a list, with the decoded list; if it is a string on
  which \<^verbatim>\<open>JSON.parse\<close> throws, with the empty list. Whatever the rest of the
  request, a string that fails to decode is treated exactly as an absent \<open>tags\<close>
  field, and no upload with a file is answered 400.
\<close>

theorem upload_tags_list_or_encoded:
  "(findOne (\<lambda>x. albumId x = aid) (albums st) = Some a \<and> hasAccess a p
      \<and> uuid \<noteq> [] \<and> aid \<noteq> [] \<and> originalname f \<noteq> [] \<and> secure_url r \<noteq> []
      \<and> public_id r \<noteq> [] \<and> userId p \<noteq> []
      \<and> \<not> list_ex (\<lambda>j. imageId j = uuid) (images st)
      \<and> (tgs = JArr ts
          \<or> (\<exists>s. s \<noteq> [] \<and> tgs = JStr s \<and> P s = Some (JArr ts))
          \<or> (\<exists>s. tgs = JStr s \<and> P s = None \<and> ts = []))
    \<longrightarrow> (\<exists>img. uploadImage P C st p aid (Some f) tgs pers fav (Inr r) uuid now
                  = ((201, ImageUploaded ''Image uploaded successfully'' uuid (originalname f)
                           (secure_url r) ts (orElse pers [])
                           (Some (fav = JStr ''true'' \<or> fav = JBool True)) (bytes r) now),
                     st\<lparr>images := images st @ [img]\<rparr>)
            \<and> tags img = ts \<and> imageId img = uuid \<and> imgAlbumId img = aid))
   \<and> (\<forall>s. P s = None \<longrightarrow>
         uploadImage P C st p aid file (JStr s) pers fav res uuid now
           = uploadImage P C st p aid file JUndefined pers fav res uuid now)
   \<and> (file \<noteq> None \<longrightarrow>
         fst (fst (uploadImage P C st p aid file tgs pers fav res uuid now)) \<noteq> 400)"
proof (intro conjI impI allI)
  assume pre: "findOne (\<lambda>x. albumId x = aid) (albums st) = Some a \<and> hasAccess a p
      \<and> uuid \<noteq> [] \<and> aid \<noteq> [] \<and> originalname f \<noteq> [] \<and> secure_url r \<noteq> []
      \<and> public_id r \<noteq> [] \<and> userId p \<noteq> []
      \<and> \<not> list_ex (\<lambda>j. imageId j = uuid) (images st)
      \<and> (tgs = JArr ts
          \<or> (\<exists>s. s \<noteq> [] \<and> tgs = JStr s \<and> P s = Some (JArr ts))
          \<or> (\<exists>s. tgs = JStr s \<and> P s = None \<and> ts = []))"
  then have facts: "findOne (\<lambda>x. albumId x = aid) (albums st) = Some a" "hasAccess a p"
      "uuid \<noteq> []" "aid \<noteq> []" "originalname f \<noteq> []" "secure_url r \<noteq> []"
      "public_id r \<noteq> []" "userId p \<noteq> []"
      "\<not> list_ex (\<lambda>j. imageId j = uuid) (images st)"
    by simp_all
  from pre have "parseTags P tgs = JArr ts"
    using parseTags_cases(1-3) [where P = P] by blast
  then have "storedTags C (parseTags P tgs) = Some ts"
    by simp
  from uploadImage_created [OF facts this]
  have "uploadImage P C st p aid (Some f) tgs pers fav (Inr r) uuid now =
           ((201, ImageUploaded ''Image uploaded successfully'' uuid (originalname f)
                    (secure_url r) ts (orElse pers []) (Some (fav = JStr ''true'' \<or> fav = JBool True))
                    (bytes r) now),
            st\<lparr>images := images st @
                 [\<lparr>imageId = uuid, imgAlbumId = aid, imgName = originalname f,
                   filename = originalname f, cloudinaryUrl = secure_url r,
                   cloudinaryPublicId = public_id r, tags = ts, person = orElse pers [],
                   isFavorite = (Some (fav = JStr ''true'' \<or> fav = JBool True)), comments = [],
                   sizeBytes = bytes r, uploadedAt = now, uploadedBy = userId p\<rparr>]\<rparr>)" .
  then show "\<exists>img. uploadImage P C st p aid (Some f) tgs pers fav (Inr r) uuid now
                  = ((201, ImageUploaded ''Image uploaded successfully'' uuid (originalname f)
                           (secure_url r) ts (orElse pers [])
                           (Some (fav = JStr ''true'' \<or> fav = JBool True)) (bytes r) now),
                     st\<lparr>images := images st @ [img]\<rparr>)
            \<and> tags img = ts \<and> imageId img = uuid \<and> imgAlbumId img = aid"
    by (intro exI [of _ "\<lparr>imageId = uuid, imgAlbumId = aid, imgName = originalname f,
                   filename = originalname f, cloudinaryUrl = secure_url r,
                   cloudinaryPublicId = public_id r, tags = ts, person = orElse pers [],
                   isFavorite = (Some (fav = JStr ''true'' \<or> fav = JBool True)), comments = [],
                   sizeBytes = bytes r, uploadedAt = now, uploadedBy = userId p\<rparr>"]) simp
next
  fix s assume "P s = None"
  then show "uploadImage P C st p aid file (JStr s) pers fav res uuid now
           = uploadImage P C st p aid file JUndefined pers fav res uuid now"
    by (rule uploadImage_malformed_as_absent)
next
  assume "file \<noteq> None"
  then show "fst (fst (uploadImage P C st p aid file tgs pers fav res uuid now)) \<noteq> 400"
    by (rule uploadImage_not_400)
qed

theorem upload_tags_list_or_encoded_witness:
  "findOne (\<lambda>x. albumId x = ''a1'') (albums db2) = Some trip \<and> hasAccess trip bob
   \<and> \<not> list_ex (\<lambda>j. imageId j = ''i3'') (images db2)
   \<and> parse1 sunJson = Some (JArr [''sun'']) \<and> sunJson \<noteq> [] \<and> parse1 ''[sun'' = None
   \<and> fst (uploadImage parse1 noCast db2 bob ''a1'' (Some \<lparr>originalname = ''q.png''\<rparr>)
             (JArr [''sea'', ''sky'']) None JUndefined
             (Inr \<lparr>secure_url = ''https://h/q'', public_id = ''k/q'', bytes = 7\<rparr>) ''i3'' 5)
        = (201, ImageUploaded ''Image uploaded successfully'' ''i3'' ''q.png'' ''https://h/q''
                  [''sea'', ''sky''] [] (Some False) 7 5)
   \<and> fst (uploadImage parse1 noCast db2 bob ''a1'' (Some \<lparr>originalname = ''q.png''\<rparr>)
             (JStr sunJson) None JUndefined
             (Inr \<lparr>secure_url = ''https://h/q'', public_id = ''k/q'', bytes = 7\<rparr>) ''i3'' 5)
        = (201, ImageUploaded ''Image uploaded successfully'' ''i3'' ''q.png'' ''https://h/q''
                  [''sun''] [] (Some False) 7 5)
   \<and> fst (uploadImage parse1 noCast db2 bob ''a1'' (Some \<lparr>originalname = ''q.png''\<rparr>)
             (JStr ''[sun'') None JUndefined
             (Inr \<lparr>secure_url = ''https://h/q'', public_id = ''k/q'', bytes = 7\<rparr>) ''i3'' 5)
        = (201, ImageUploaded ''Image uploaded successfully'' ''i3'' ''q.png'' ''https://h/q''
                  [] [] (Some False) 7 5)
   \<and> map tags (images (snd (uploadImage parse1 noCast db2 bob ''a1''
             (Some \<lparr>originalname = ''q.png''\<rparr>) (JStr ''[sun'') None JUndefined
             (Inr \<lparr>secure_url = ''https://h/q'', public_id = ''k/q'', bytes = 7\<rparr>) ''i3'' 5)))
        = [[''sun''], [], []]"
proof -
  let ?f = "\<lparr>originalname = ''q.png''\<rparr>"
  let ?r = "\<lparr>secure_url = ''https://h/q'', public_id = ''k/q'', bytes = 7\<rparr>"
  let ?up = "\<lambda>tgs. uploadImage parse1 noCast db2 bob ''a1'' (Some ?f) tgs None JUndefined
                (Inr ?r) ''i3'' 5"
  have f: "findOne (\<lambda>x. albumId x = ''a1'') (albums db2) = Some trip"
    by code_simp
  have h: "hasAccess trip bob"
    by (simp add: hasAccess_def trip_def bob_def)
  have n: "\<not> list_ex (\<lambda>j. imageId j = ''i3'') (images db2)"
    by (simp add: db2_def pic_def pic2_def)
  have j: "parse1 sunJson = Some (JArr [''sun''])" "sunJson \<noteq> []" "parse1 ''[sun'' = None"
    by (simp_all add: parse1_def sunJson_def)
  have e: "''i3'' \<noteq> []" "''a1'' \<noteq> []" "originalname ?f \<noteq> []" "secure_url ?r \<noteq> []"
    "public_id ?r \<noteq> []" "userId bob \<noteq> []"
    by (simp_all add: bob_def)
  note inst = upload_tags_list_or_encoded [where P = parse1 and C = noCast and st = db2
      and p = bob and aid = "''a1''" and a = trip and f = ?f and r = ?r and uuid = "''i3''"
      and now = 5 and pers = None and fav = JUndefined, THEN conjunct1, rule_format]
  have shape: "fst (?up tgs) = (201, ImageUploaded ''Image uploaded successfully'' ''i3''
                  ''q.png'' ''https://h/q'' ts [] (Some False) 7 5)
      \<and> map tags (images (snd (?up tgs))) = map tags (images db2) @ [ts]"
    if "tgs = JArr ts \<or> (\<exists>s. s \<noteq> [] \<and> tgs = JStr s \<and> parse1 s = Some (JArr ts))
          \<or> (\<exists>s. tgs = JStr s \<and> parse1 s = None \<and> ts = [])" for tgs ts
  proof -
    from inst [where tgs = tgs and ts = ts] f h n e that
    obtain img where "?up tgs = ((201, ImageUploaded ''Image uploaded successfully'' ''i3''
         (originalname ?f) (secure_url ?r) ts (orElse None [])
         (Some (JUndefined = JStr ''true'' \<or> JUndefined = JBool True)) (bytes ?r) 5),
         db2\<lparr>images := images db2 @ [img]\<rparr>)" and "tags img = ts"
      by blast
    then show ?thesis by simp
  qed
  have m: "map tags (images db2) = [[''sun''], []]"
    by (simp add: db2_def pic_def pic2_def)
  from shape [of "JArr [''sea'', ''sky'']" "[''sea'', ''sky'']"]
  have c1: "fst (?up (JArr [''sea'', ''sky''])) = (201, ImageUploaded
      ''Image uploaded successfully'' ''i3'' ''q.png'' ''https://h/q'' [''sea'', ''sky''] [] (Some False) 7 5)"
    by simp
  from shape [of "JStr sunJson" "[''sun'']"] j
  have c2: "fst (?up (JStr sunJson)) = (201, ImageUploaded
      ''Image uploaded successfully'' ''i3'' ''q.png'' ''https://h/q'' [''sun''] [] (Some False) 7 5)"
    by blast
  from shape [of "JStr ''[sun''" "[]"] j
  have c3: "fst (?up (JStr ''[sun'')) = (201, ImageUploaded
      ''Image uploaded successfully'' ''i3'' ''q.png'' ''https://h/q'' [] [] (Some False) 7 5)
      \<and> map tags (images (snd (?up (JStr ''[sun'')))) = map tags (images db2) @ [[]]"
    by blast
  then have c4: "map tags (images (snd (?up (JStr ''[sun'')))) = [[''sun''], [], []]"
    unfolding m by simp
  from f h n j c1 c2 c3 [THEN conjunct1] c4 show ?thesis by (intro conjI)
qed

subsection \<open>Updating the description\<close>

lemma updateDescription_result:
  assumes "findOne (\<lambda>x. albumId x = aid) (albums st) = Some a" and "ownerId a = userId p"
  shows "updateDescription st p aid descr =
           ((200, AlbumUpdated ''Album updated successfully'' (albumId a) (name a)
                    (orElse descr (description a))),
            st\<lparr>albums := saveLoaded (\<lambda>x. albumId x = aid)
                   (a\<lparr>description := orElse descr (description a)\<rparr>) (albums st)\<rparr>)"
  using assms by (simp add: updateDescription_def Let_def)

lemma updateDescription_falsy:
  assumes "\<not> truthyStr descr"
  shows "snd (updateDescription st p aid descr) = st"
proof (cases "snd (updateDescription st p aid descr) = st")
  case True
  then show ?thesis .
next
  case False
  with updateDescription_db [of st p aid descr] obtain a where
    a: "findOne (\<lambda>a. albumId a = aid) (albums st) = Some a"
    and s: "snd (updateDescription st p aid descr) =
              st\<lparr>albums := saveLoaded (\<lambda>a. albumId a = aid)
                     (a\<lparr>description := orElse descr (description a)\<rparr>) (albums st)\<rparr>"
    by blast
  from assms have "orElse descr (description a) = description a"
    by (cases descr) simp_all
  then have "a\<lparr>description := orElse descr (description a)\<rparr> = a"
    by simp
  with s saveLoaded_same [OF a] show ?thesis by simp
qed

lemma updateDescription_frame:
  "map (\<lambda>a. a\<lparr>description := []\<rparr>) (albums (snd (updateDescription st p aid descr)))
     = map (\<lambda>a. a\<lparr>description := []\<rparr>) (albums st)
   \<and> images (snd (updateDescription st p aid descr)) = images st"
proof (cases "snd (updateDescription st p aid descr) = st")
  case True
  then show ?thesis by simp
next
  case False
  with updateDescription_db [of st p aid descr] obtain a where
    a: "findOne (\<lambda>a. albumId a = aid) (albums st) = Some a"
    and s: "snd (updateDescription st p aid descr) =
              st\<lparr>albums := saveLoaded (\<lambda>a. albumId a = aid)
                     (a\<lparr>description := orElse descr (description a)\<rparr>) (albums st)\<rparr>"
    by blast
  have "map (\<lambda>a. a\<lparr>description := []\<rparr>)
          (saveLoaded (\<lambda>a. albumId a = aid)
             (a\<lparr>description := orElse descr (description a)\<rparr>) (albums st))
        = map (\<lambda>a. a\<lparr>description := []\<rparr>) (albums st)"
    by (rule map_saveLoaded [OF a]) simp
  with s show ?thesis by simp
qed

text \<open>
  C9. With a falsy new description (absent, or the empty string) the update leaves
  the whole database as it was, and the owner's answer shows the prior description.
  With a non-empty one the owner's album is stored with the new description. In every
  case (also 404 and 403) the images are untouched and the album collection is the
  old one up to the \<open>description\<close> fields: position by position, \<open>albumId\<close>, \<open>name\<close>,
  \<open>ownerId\<close>, \<open>ownerEmail\<close>, \<open>sharedWith\<close> and \<open>createdAt\<close> are what they were.
\<close>

theorem updateDescription_keeps_other_fields:
  "(\<not> truthyStr descr \<longrightarrow>
      snd (updateDescription st p aid descr) = st
    \<and> (\<forall>a. findOne (\<lambda>x. albumId x = aid) (albums st) = Some a \<and> ownerId a = userId p \<longrightarrow>
          fst (updateDescription st p aid descr)
            = (200, AlbumUpdated ''Album updated successfully'' (albumId a) (name a)
                      (description a))))
   \<and> (\<forall>a d. findOne (\<lambda>x. albumId x = aid) (albums st) = Some a \<and> ownerId a = userId p
          \<and> descr = Some d \<and> d \<noteq> [] \<longrightarrow>
        fst (updateDescription st p aid descr)
          = (200, AlbumUpdated ''Album updated successfully'' (albumId a) (name a) d)
      \<and> findOne (\<lambda>x. albumId x = aid) (albums (snd (updateDescription st p aid descr)))
          = Some (a\<lparr>description := d\<rparr>))
   \<and> map (\<lambda>a. a\<lparr>description := []\<rparr>) (albums (snd (updateDescription st p aid descr)))
        = map (\<lambda>a. a\<lparr>description := []\<rparr>) (albums st)
   \<and> images (snd (updateDescription st p aid descr)) = images st"
proof -
  have c1: "snd (updateDescription st p aid descr) = st
    \<and> (\<forall>a. findOne (\<lambda>x. albumId x = aid) (albums st) = Some a \<and> ownerId a = userId p \<longrightarrow>
          fst (updateDescription st p aid descr)
            = (200, AlbumUpdated ''Album updated successfully'' (albumId a) (name a)
                      (description a)))"
    if falsy: "\<not> truthyStr descr"
  proof -
    from falsy have o: "orElse descr d = d" for d
      by (cases descr) simp_all
    have "fst (updateDescription st p aid descr)
            = (200, AlbumUpdated ''Album updated successfully'' (albumId a) (name a)
                      (description a))"
      if "findOne (\<lambda>x. albumId x = aid) (albums st) = Some a" "ownerId a = userId p" for a
      using updateDescription_result [OF that, of descr] o by simp
    with updateDescription_falsy [OF falsy, of st p aid] show ?thesis by blast
  qed
  have c2: "fst (updateDescription st p aid descr)
          = (200, AlbumUpdated ''Album updated successfully'' (albumId a) (name a) d)
      \<and> findOne (\<lambda>x. albumId x = aid) (albums (snd (updateDescription st p aid descr)))
          = Some (a\<lparr>description := d\<rparr>)"
    if pre: "findOne (\<lambda>x. albumId x = aid) (albums st) = Some a \<and> ownerId a = userId p
          \<and> descr = Some d \<and> d \<noteq> []" for a d
  proof -
    from pre have a: "findOne (\<lambda>x. albumId x = aid) (albums st) = Some a"
      and o: "ownerId a = userId p" and d: "orElse descr (description a) = d"
      by simp_all
    from findOne_SomeD [OF a] have "albumId (a\<lparr>description := d\<rparr>) = aid" by simp
    from findOne_saveLoaded [OF a, of "a\<lparr>description := d\<rparr>"] this
    have "findOne (\<lambda>x. albumId x = aid)
            (saveLoaded (\<lambda>x. albumId x = aid) (a\<lparr>description := d\<rparr>) (albums st))
          = Some (a\<lparr>description := d\<rparr>)"
      by simp
    with updateDescription_result [OF a o, of descr] d show ?thesis by simp
  qed
  from c1 c2 updateDescription_frame [of st p aid descr] show ?thesis by blast
qed

theorem updateDescription_keeps_other_fields_witness:
  "findOne (\<lambda>x. albumId x = ''a1'') (albums db2) = Some trip \<and> ownerId trip = userId ann
   \<and> \<not> truthyStr None \<and> \<not> truthyStr (Some [])
   \<and> snd (updateDescription db2 ann ''a1'' None) = db2
   \<and> updateDescription db2 ann ''a1'' (Some [])
        = ((200, AlbumUpdated ''Album updated successfully'' ''a1'' ''Trip'' ''sea''), db2)
   \<and> updateDescription db2 ann ''a1'' (Some ''surf'')
        = ((200, AlbumUpdated ''Album updated successfully'' ''a1'' ''Trip'' ''surf''),
           db2\<lparr>albums := [trip\<lparr>description := ''surf''\<rparr>, hut]\<rparr>)
   \<and> findOne (\<lambda>x. albumId x = ''a1'') (albums (snd (updateDescription db2 ann ''a1'' (Some ''surf''))))
        = Some (trip\<lparr>description := ''surf''\<rparr>)
   \<and> map (\<lambda>a. a\<lparr>description := []\<rparr>) (albums (snd (updateDescription db2 ann ''a1'' (Some ''surf''))))
        = map (\<lambda>a. a\<lparr>description := []\<rparr>) (albums db2)"
proof -
  have f: "findOne (\<lambda>x. albumId x = ''a1'') (albums db2) = Some trip"
    by code_simp
  have o: "ownerId trip = userId ann"
    by (simp add: trip_def ann_def)
  have t: "\<not> truthyStr None" "\<not> truthyStr (Some [])"
    by simp_all
  have v: "albumId trip = ''a1''" "name trip = ''Trip''" "description trip = ''sea''"
    by (simp_all add: trip_def)
  note inst = updateDescription_keeps_other_fields [where st = db2 and p = ann and aid = "''a1''"]
  from inst [where descr = None] t(1)
  have c1: "snd (updateDescription db2 ann ''a1'' None) = db2"
    by blast
  from inst [where descr = "Some []"] t(2) f o
  have "snd (updateDescription db2 ann ''a1'' (Some [])) = db2"
    "fst (updateDescription db2 ann ''a1'' (Some []))
       = (200, AlbumUpdated ''Album updated successfully'' (albumId trip) (name trip)
                 (description trip))"
    by blast+
  then have c2: "updateDescription db2 ann ''a1'' (Some [])
        = ((200, AlbumUpdated ''Album updated successfully'' ''a1'' ''Trip'' ''sea''), db2)"
    unfolding v by (simp add: prod_eq_iff)
  have c3: "updateDescription db2 ann ''a1'' (Some ''surf'')
        = ((200, AlbumUpdated ''Album updated successfully'' ''a1'' ''Trip'' ''surf''),
           db2\<lparr>albums := [trip\<lparr>description := ''surf''\<rparr>, hut]\<rparr>)"
    by code_simp
  from inst [where descr = "Some ''surf''", THEN conjunct2, THEN conjunct1, rule_format,
      of trip "''surf''"] f o
  have c4: "findOne (\<lambda>x. albumId x = ''a1'')
        (albums (snd (updateDescription db2 ann ''a1'' (Some ''surf''))))
        = Some (trip\<lparr>description := ''surf''\<rparr>)"
    by simp
  note c5 = inst [where descr = "Some ''surf''", THEN conjunct2, THEN conjunct2, THEN conjunct1]
  from f o t c1 c2 c3 c4 c5 show ?thesis by (intro conjI)
qed

subsection \<open>Validation comes before the lookup\<close>

lemma shareAlbum_invalid_body:
  "\<not> truthy emails \<or> \<not> isArray emails \<or> elems emails = [] \<Longrightarrow>
     shareAlbum st p aid emails = ((400, Error ''Valid email array is required''), st)"
  by (auto simp: shareAlbum_def)

text \<open>
  C10. A share request whose \<open>emails\<close> is falsy (so also when it is missing), is not
  an array, or is the empty array is answered 400 "Valid email array is required",
  and a comment request whose comment is falsy or is a string that trims to the empty
  string is answered 400 "Comment cannot be empty", in every database and for every
  principal and album id: whether the album exists and who the caller is plays no
  part, and the database is as it was.
\<close>

theorem validation_before_lookup:
  "(\<not> truthy emails \<or> \<not> isArray emails \<or> elems emails = [] \<longrightarrow>
      shareAlbum st p aid emails = ((400, Error ''Valid email array is required''), st))
   \<and> (\<not> truthy cmt \<or> (\<exists>t. cmt = JStr t \<and> trim t = []) \<longrightarrow>
      addComment st p aid iid cmt now = ((400, Error ''Comment cannot be empty''), st))"
  using shareAlbum_invalid_body [of emails st p aid] addComment_blank [of cmt st p aid iid now]
  by blast

theorem validation_before_lookup_witness:
  "findOne (\<lambda>x. albumId x = ''zz'') (albums db2) = None
   \<and> \<not> truthy JUndefined \<and> \<not> isArray (JStr ''cy@x.io'') \<and> elems (JArr []) = []
   \<and> trim ''  '' = []
   \<and> shareAlbum db2 cy ''zz'' JUndefined = ((400, Error ''Valid email array is required''), db2)
   \<and> shareAlbum db2 cy ''zz'' (JArr []) = ((400, Error ''Valid email array is required''), db2)
   \<and> shareAlbum db2 cy ''a1'' (JStr ''cy@x.io'')
        = ((400, Error ''Valid email array is required''), db2)
   \<and> addComment db2 cy ''zz'' ''i1'' (JStr ''  '') 6 = ((400, Error ''Comment cannot be empty''), db2)
   \<and> addComment db2 cy ''a1'' ''i1'' JUndefined 6 = ((400, Error ''Comment cannot be empty''), db2)
   \<and> shareAlbum db2 cy ''zz'' (JArr [''cy@x.io'']) = ((404, Error ''Album not found''), db2)
   \<and> shareAlbum db2 cy ''a1'' (JArr [''cy@x.io''])
        = ((403, Error ''Only the album owner can share it''), db2)
   \<and> addComment db2 cy ''zz'' ''i1'' (JStr ''hi'') 6 = ((404, Error ''Album not found''), db2)
   \<and> addComment db2 cy ''a1'' ''i1'' (JStr ''hi'') 6
        = ((403, Error ''You do not have access to this album''), db2)"
proof -
  have z: "findOne (\<lambda>x. albumId x = ''zz'') (albums db2) = None"
    by code_simp
  have b: "\<not> truthy JUndefined" "\<not> isArray (JStr ''cy@x.io'')" "elems (JArr []) = []"
    by simp_all
  have t: "trim ''  '' = []"
    by code_simp
  note s = validation_before_lookup [where st = db2 and p = cy, THEN conjunct1, rule_format]
  note c = validation_before_lookup [where st = db2 and p = cy, THEN conjunct2, rule_format]
  have s1: "shareAlbum db2 cy ''zz'' JUndefined
        = ((400, Error ''Valid email array is required''), db2)"
    by (rule s) (simp add: b)
  have s2: "shareAlbum db2 cy ''zz'' (JArr [])
        = ((400, Error ''Valid email array is required''), db2)"
    by (rule s) (simp add: b)
  have s3: "shareAlbum db2 cy ''a1'' (JStr ''cy@x.io'')
        = ((400, Error ''Valid email array is required''), db2)"
    by (rule s) (simp add: b)
  have c1: "addComment db2 cy ''zz'' ''i1'' (JStr ''  '') 6
        = ((400, Error ''Comment cannot be empty''), db2)"
    by (rule c) (simp add: t)
  have c2: "addComment db2 cy ''a1'' ''i1'' JUndefined 6
        = ((400, Error ''Comment cannot be empty''), db2)"
    by (rule c) simp
  have r: "shareAlbum db2 cy ''zz'' (JArr [''cy@x.io'']) = ((404, Error ''Album not found''), db2)"
    "shareAlbum db2 cy ''a1'' (JArr [''cy@x.io''])
        = ((403, Error ''Only the album owner can share it''), db2)"
    "addComment db2 cy ''zz'' ''i1'' (JStr ''hi'') 6 = ((404, Error ''Album not found''), db2)"
    "addComment db2 cy ''a1'' ''i1'' (JStr ''hi'') 6
        = ((403, Error ''You do not have access to this album''), db2)"
    by code_simp+
  from z b t s1 s2 s3 c1 c2 r show ?thesis by (intro conjI)
qed

end
